theory Spec2Isabelle
  imports Complex_Main
begin

section \<open>Yamaha speaker integration: a model of yamaha-flic-integration.js\<close>

text \<open>
  The script reacts to events of the Flic hub (action messages, twist updates) by
  sending HTTP GET requests to a Yamaha receiver. The model makes every effect of
  the script explicit: the requests it sends (with the way each one settles), the
  console output, the calls of \<open>flicApp.virtualDeviceUpdateState\<close> and the
  module-level variables. JavaScript exceptions and rejected promises are values of
  type \<open>jserror\<close>; an \<open>await\<close> is sequential composition.
\<close>

subsection \<open>Strings\<close>

text \<open>
  Strings are byte strings (UTF-8). \<open>toLowerCase\<close> is modelled on the ASCII
  letters; every other byte is left as it is.
\<close>

definition toLowerCase_char :: "char \<Rightarrow> char" where
  "toLowerCase_char c =
     (let n = (of_char c :: nat) in if 65 \<le> n \<and> n \<le> 90 then char_of (n + 32) else c)"

definition toLowerCase :: "string \<Rightarrow> string" where
  "toLowerCase s = map toLowerCase_char s"

text \<open>\<open>s.split(' ')\<close>: the pieces between the spaces; never the empty list.\<close>

fun split_space :: "string \<Rightarrow> string list" where
  "split_space [] = [[]]"
| "split_space (c # cs) =
     (if c = CHR '' '' then [] # split_space cs
      else (case split_space cs of
              [] \<Rightarrow> [[c]]
            | p # ps \<Rightarrow> (c # p) # ps))"

text \<open>\<open>parts.join(sep)\<close>.\<close>

fun join :: "string \<Rightarrow> string list \<Rightarrow> string" where
  "join sep [] = []"
| "join sep [x] = x"
| "join sep (x # y # ys) = x @ sep @ join sep (y # ys)"

text \<open>Decimal digits of a number, as template literals and \<open>String(n)\<close> print an integer.\<close>

definition digit_char :: "nat \<Rightarrow> char" where
  "digit_char d = ''0123456789'' ! d"

fun string_of_nat :: "nat \<Rightarrow> string" where
  "string_of_nat n =
     (if n < 10 then [digit_char n] else string_of_nat (n div 10) @ [digit_char (n mod 10)])"

declare string_of_nat.simps [simp del]

definition string_of_int :: "int \<Rightarrow> string" where
  "string_of_int i = (if i < 0 then CHR ''-'' # string_of_nat (nat (- i)) else string_of_nat (nat i))"

text \<open>
  A JavaScript number as the script meets it in a volume: an integer, or \<open>NaN\<close>
  (what arithmetic on \<open>undefined\<close> gives).
\<close>

datatype jsnum = Num int | NaN

fun Math_min :: "int \<Rightarrow> jsnum \<Rightarrow> jsnum" where
  "Math_min a (Num b) = Num (min a b)"
| "Math_min a NaN = NaN"

fun Math_max :: "int \<Rightarrow> jsnum \<Rightarrow> jsnum" where
  "Math_max a (Num b) = Num (max a b)"
| "Math_max a NaN = NaN"

fun plus_js :: "jsnum \<Rightarrow> int \<Rightarrow> jsnum" where
  "plus_js (Num a) b = Num (a + b)"
| "plus_js NaN b = NaN"

text \<open>\<open>Math.round\<close> of an integer or of \<open>NaN\<close> is the number itself.\<close>

fun Math_round :: "jsnum \<Rightarrow> jsnum" where
  "Math_round (Num a) = Num a"
| "Math_round NaN = NaN"

fun String_jsnum :: "jsnum \<Rightarrow> string" where
  "String_jsnum (Num a) = string_of_int a"
| "String_jsnum NaN = ''NaN''"

subsection \<open>encodeURIComponent\<close>

text \<open>
  Every byte outside \<open>A-Z a-z 0-9 - _ . ! ~ * ' ( )\<close> becomes \<open>%XX\<close> with
  upper-case hexadecimal digits.
\<close>

definition unreserved :: "char \<Rightarrow> bool" where
  "unreserved c =
     (let n = (of_char c :: nat) in
        (65 \<le> n \<and> n \<le> 90) \<or> (97 \<le> n \<and> n \<le> 122) \<or> (48 \<le> n \<and> n \<le> 57)
        \<or> c \<in> set ''-_.!~*()'' \<or> n = 39)"

definition hex_digit :: "nat \<Rightarrow> char" where
  "hex_digit d = ''0123456789ABCDEF'' ! d"

definition encode_char :: "char \<Rightarrow> string" where
  "encode_char c =
     (if unreserved c then [c]
      else (let n = (of_char c :: nat) in [CHR ''%'', hex_digit (n div 16), hex_digit (n mod 16)]))"

definition encodeURIComponent :: "string \<Rightarrow> string" where
  "encodeURIComponent s = concat (map encode_char s)"

subsection \<open>Configuration\<close>

record speaker =
  id_of :: string
  ip_of :: string
  name_of :: string
  zone_of :: string

record endpoints =
  volume_ep :: string
  status_ep :: string
  power_ep :: string
  mute_ep :: string

definition YAMAHA_CONFIG_speakers :: "speaker list" where
  "YAMAHA_CONFIG_speakers =
     [\<lparr>id_of = ''id1main'', ip_of = ''RECEIVER1_IP_ADDRESS'',
        name_of = ''Name Receiver 1 Main Zone'', zone_of = ''main''\<rparr>,
      \<lparr>id_of = ''id1zone2'', ip_of = ''RECEIVER1_IP_ADDRESS'',
        name_of = ''Name Receiver 1 Zone 2'', zone_of = ''zone2''\<rparr>]"

text \<open>\<open>YAMAHA_CONFIG.endpoints[zone]\<close>; \<open>None\<close> is \<open>undefined\<close>.\<close>

definition YAMAHA_CONFIG_endpoints :: "string \<Rightarrow> endpoints option" where
  "YAMAHA_CONFIG_endpoints z =
     (if z = ''main'' then
        Some \<lparr>volume_ep = ''/YamahaExtendedControl/v1/main/setVolume'',
              status_ep = ''/YamahaExtendedControl/v1/main/getStatus'',
              power_ep = ''/YamahaExtendedControl/v1/main/setPower'',
              mute_ep = ''/YamahaExtendedControl/v1/main/setMute''\<rparr>
      else if z = ''zone2'' then
        Some \<lparr>volume_ep = ''/YamahaExtendedControl/v1/zone2/setVolume'',
              status_ep = ''/YamahaExtendedControl/v1/zone2/getStatus'',
              power_ep = ''/YamahaExtendedControl/v1/zone2/setPower'',
              mute_ep = ''/YamahaExtendedControl/v1/zone2/setMute''\<rparr>
      else None)"

definition PLAYBACK_COOLDOWN_MS :: int where
  "PLAYBACK_COOLDOWN_MS = 2500"

subsection \<open>Requests, responses, errors\<close>

text \<open>A thrown value or the reason of a rejected promise.\<close>

datatype jserror =
    Error string
  | SyntaxError
  | TypeError

record request =
  url :: string
  http_method :: string
  headers :: "(string \<times> string) list"

text \<open>
  The \<open>result\<close> that \<open>http.makeRequest\<close> hands to its callback; a field that
  is \<open>None\<close> is \<open>undefined\<close>.
\<close>

record http_result =
  statusCode :: "int option"
  status :: "int option"
  content :: "string option"
  body :: "string option"
  data :: "string option"
  headers_r :: "(string \<times> string) list option"
  statusMessage :: "string option"

text \<open>
  What the underlying request does: its callback runs \<open>delay\<close> milliseconds after
  the request was made, with an error (\<open>None\<close> when the argument is falsy) and a
  result (\<open>None\<close> when falsy); or the callback never runs.
\<close>

datatype raw_outcome =
    Completes nat "string option" "http_result option"
  | Never

text \<open>The value \<open>sendYamahaRequest\<close> resolves with: \<open>{ success, data: {...} }\<close>.\<close>

record response =
  success :: bool
  data_status :: int
  data_body :: string
  data_headers :: "(string \<times> string) list"
  data_statusMessage :: string

text \<open>The \<open>data\<close> argument of \<open>sendYamahaRequest\<close>: an object, or \<open>null\<close>.\<close>

datatype qval = QNum jsnum | QStr string

type_synonym data_arg = "(string \<rightharpoonup> qval) option"

fun String_js :: "qval \<Rightarrow> string" where
  "String_js (QNum n) = String_jsnum n"
| "String_js (QStr s) = s"

text \<open>\<open>a || b || ... || d\<close>: the first truthy operand, or the last one.\<close>

fun first_truthy :: "('a \<Rightarrow> bool) \<Rightarrow> 'a option list \<Rightarrow> 'a \<Rightarrow> 'a" where
  "first_truthy t [] d = d"
| "first_truthy t (None # xs) d = first_truthy t xs d"
| "first_truthy t (Some v # xs) d = (if t v then v else first_truthy t xs d)"

subsection \<open>sendYamahaRequest\<close>

definition param :: "(string \<rightharpoonup> qval) \<Rightarrow> string \<Rightarrow> string list" where
  "param d k =
     (case d k of
        None \<Rightarrow> []
      | Some v \<Rightarrow> [k @ ''='' @ encodeURIComponent (String_js v)])"

definition sendYamahaRequest_url :: "string \<Rightarrow> string \<Rightarrow> data_arg \<Rightarrow> string" where
  "sendYamahaRequest_url ip endpoint dat =
     (let url = ''http://'' @ ip @ endpoint in
      case dat of
        None \<Rightarrow> url
      | Some d \<Rightarrow>
          (let params = param d ''volume'' @ param d ''power'' @ param d ''mute''
                        @ param d ''enable'' @ param d ''playback''
           in if length params > 0 then url @ ''?'' @ join ''&'' params else url))"

definition requestOptions :: "string \<Rightarrow> string \<Rightarrow> data_arg \<Rightarrow> request" where
  "requestOptions ip endpoint dat =
     \<lparr>url = sendYamahaRequest_url ip endpoint dat,
      http_method = ''GET'',
      headers = [(''Content-Type'', ''application/x-www-form-urlencoded''),
                 (''User-Agent'', ''Flic-Hub-Studio/1.0'')]\<rparr>"

definition REQUEST_TIMEOUT_MS :: nat where
  "REQUEST_TIMEOUT_MS = 5000"

text \<open>
  How the promise of \<open>sendYamahaRequest\<close> settles. The timer is due
  \<open>REQUEST_TIMEOUT_MS\<close> after the request; the callback settles the promise (and
  clears the timer) only when it runs before the timer is due, otherwise the timer
  has rejected the promise already and the callback changes nothing.
\<close>

definition settle :: "raw_outcome \<Rightarrow> jserror + response" where
  "settle raw =
     (case raw of
        Never \<Rightarrow> Inl (Error ''Request timeout'')
      | Completes delay error result \<Rightarrow>
          if delay < REQUEST_TIMEOUT_MS then
            (case error of
               Some e \<Rightarrow> Inl (Error (''HTTP request failed: '' @ e))
             | None \<Rightarrow>
                 (let responseData =
                        (case result of
                           Some r \<Rightarrow> r
                         | None \<Rightarrow> \<lparr>statusCode = None, status = None, content = None,
                                     body = None, data = None, headers_r = None,
                                     statusMessage = None\<rparr>);
                      statusCode = first_truthy (\<lambda>n. n \<noteq> 0)
                                     [statusCode responseData, status responseData] 200;
                      content = first_truthy (\<lambda>s. s \<noteq> [])
                                  [content responseData, body responseData, data responseData] []
                  in Inr \<lparr>success = True,
                          data_status = statusCode,
                          data_body = content,
                          data_headers = (case headers_r responseData of Some h \<Rightarrow> h | None \<Rightarrow> []),
                          data_statusMessage =
                            first_truthy (\<lambda>s. s \<noteq> []) [statusMessage responseData] ''OK''\<rparr>))
          else Inl (Error ''Request timeout''))"

subsection \<open>State, effects and the environment\<close>

text \<open>
  Everything the script does to the outside: a request with the way its promise
  settled, a line of \<open>console.log\<close>, a \<open>console.error\<close> with its optional second
  argument, and \<open>flicApp.virtualDeviceUpdateState(type, id, {volume})\<close> (the volume
  is \<open>None\<close> for \<open>NaN\<close>).
\<close>

datatype event =
    Http request "jserror + response"
  | ConsoleLog string
  | ConsoleError string "jserror option"
  | VirtualDeviceUpdateState string string "real option"

text \<open>The module-level variables, and the history of effects.\<close>

record state =
  lastPlaybackCommandTime :: int
  currentVolume :: int
  mainZoneVolume :: int
  zone2Volume :: int
  trace :: "event list"

text \<open>
  What a parsed status body gives the script: \<open>JSON.parse\<close> returned \<open>null\<close>, or
  a value whose properties read as below (\<open>volume_sd\<close> is \<open>NaN\<close> and the others
  falsy or \<open>None\<close> where the property is missing).
\<close>

record status_data =
  volume_sd :: jsnum
  mute_sd :: bool
  power_sd :: "string option"
  playback_sd :: "string option"

datatype parsed = JNull | JValue status_data

text \<open>
  The world around the script: how the device answers a request (it may depend on
  everything that happened before), what \<open>JSON.parse\<close> makes of a body (\<open>None\<close>:
  it throws), and the clock read by \<open>Date.now()\<close> when the handler starts.
\<close>

record env =
  http_makeRequest :: "event list \<Rightarrow> request \<Rightarrow> raw_outcome"
  JSON_parse :: "string \<Rightarrow> parsed option"
  Date_now :: int

text \<open>
  A computation of the script: it runs on the state and either returns a value or
  throws (an async function: fulfils or rejects).
\<close>

type_synonym 'a js = "state \<Rightarrow> (jserror + 'a) \<times> state"

definition return_js :: "'a \<Rightarrow> 'a js" where
  "return_js x = (\<lambda>s. (Inr x, s))"

definition throw :: "jserror \<Rightarrow> 'a js" where
  "throw e = (\<lambda>s. (Inl e, s))"

text \<open>\<open>const x = await m; k x\<close>, and also plain sequencing of statements.\<close>

definition await :: "'a js \<Rightarrow> ('a \<Rightarrow> 'b js) \<Rightarrow> 'b js" where
  "await m k = (\<lambda>s. case m s of (Inl e, s') \<Rightarrow> (Inl e, s') | (Inr x, s') \<Rightarrow> k x s')"

definition seq :: "unit js \<Rightarrow> 'b js \<Rightarrow> 'b js" where
  "seq m k = await m (\<lambda>_. k)"

text \<open>\<open>try { m } catch (error) { h error }\<close>.\<close>

definition try_catch :: "'a js \<Rightarrow> (jserror \<Rightarrow> 'a js) \<Rightarrow> 'a js" where
  "try_catch m h = (\<lambda>s. case m s of (Inl e, s') \<Rightarrow> h e s' | (Inr x, s') \<Rightarrow> (Inr x, s'))"

definition emit :: "event \<Rightarrow> unit js" where
  "emit e = (\<lambda>s. (Inr (), s\<lparr>trace := trace s @ [e]\<rparr>))"

definition console_log :: "string \<Rightarrow> unit js" where
  "console_log msg = emit (ConsoleLog msg)"

definition console_error :: "string \<Rightarrow> jserror option \<Rightarrow> unit js" where
  "console_error msg err = emit (ConsoleError msg err)"

definition read :: "(state \<Rightarrow> 'a) \<Rightarrow> 'a js" where
  "read f = (\<lambda>s. (Inr (f s), s))"

fun forEach :: "('a \<Rightarrow> unit js) \<Rightarrow> 'a list \<Rightarrow> unit js" where
  "forEach f [] = return_js ()"
| "forEach f (x # xs) = seq (f x) (forEach f xs)"

text \<open>The pictographs that open the log lines, as UTF-8 bytes.\<close>

definition cross_mark :: string where
  "cross_mark = [CHR 0xE2, CHR 0x9D, CHR 0x8C]"

definition check_mark :: string where
  "check_mark = [CHR 0xE2, CHR 0x9C, CHR 0x85]"

definition hourglass :: string where
  "hourglass = [CHR 0xE2, CHR 0x8F, CHR 0xB3]"

definition pause_sign :: string where
  "pause_sign = [CHR 0xE2, CHR 0x8F, CHR 0xB8, CHR 0xEF, CHR 0xB8, CHR 0x8F]"

definition play_sign :: string where
  "play_sign = [CHR 0xE2, CHR 0x96, CHR 0xB6, CHR 0xEF, CHR 0xB8, CHR 0x8F]"

definition next_sign :: string where
  "next_sign = [CHR 0xE2, CHR 0x8F, CHR 0xAD, CHR 0xEF, CHR 0xB8, CHR 0x8F]"

text \<open>
  \<open>sendYamahaRequest(ip, endpoint, data, zone)\<close>: builds the request, hands it to
  \<open>http.makeRequest\<close> and settles as \<open>settle\<close> says. The \<open>zone\<close> argument is not
  used by the source either.
\<close>

definition sendYamahaRequest ::
  "env \<Rightarrow> string \<Rightarrow> string \<Rightarrow> data_arg \<Rightarrow> string \<Rightarrow> response js" where
  "sendYamahaRequest env ip endpoint dat zone =
     (\<lambda>s. let req = requestOptions ip endpoint dat;
              r = settle (http_makeRequest env (trace s) req)
          in (r, s\<lparr>trace := trace s @ [Http req r]\<rparr>))"

text \<open>\<open>YAMAHA_CONFIG.endpoints[speaker.zone]\<close> followed by a property read.\<close>

definition endpoints_of :: "speaker \<Rightarrow> endpoints js" where
  "endpoints_of speaker =
     (case YAMAHA_CONFIG_endpoints (zone_of speaker) of
        None \<Rightarrow> throw TypeError
      | Some ep \<Rightarrow> return_js ep)"

text \<open>\<open>JSON.parse(body)\<close> followed by a property read of the parsed value.\<close>

definition parse_body :: "env \<Rightarrow> string \<Rightarrow> status_data js" where
  "parse_body env b =
     (case JSON_parse env b of
        None \<Rightarrow> throw SyntaxError
      | Some JNull \<Rightarrow> throw TypeError
      | Some (JValue statusData) \<Rightarrow> return_js statusData)"

definition find_speaker :: "string \<Rightarrow> speaker option" where
  "find_speaker speakerId = find (\<lambda>s. id_of s = speakerId) YAMAHA_CONFIG_speakers"

subsection \<open>The API functions\<close>

definition getCurrentVolumeAndUpdate :: "env \<Rightarrow> speaker \<Rightarrow> jsnum option js" where
  "getCurrentVolumeAndUpdate env speaker =
     try_catch
       (await (endpoints_of speaker) (\<lambda>ep.
        await (sendYamahaRequest env (ip_of speaker) (status_ep ep) None (zone_of speaker))
          (\<lambda>response.
             if success response then
               await (parse_body env (data_body response)) (\<lambda>statusData.
                 let currentVolume = volume_sd statusData in
                 seq (emit (VirtualDeviceUpdateState ''Speaker'' (id_of speaker)
                        (case currentVolume of
                           Num n \<Rightarrow> Some (real_of_int n / 100)
                         | NaN \<Rightarrow> None)))
                     (return_js (Some currentVolume)))
             else
               seq (console_error
                      (cross_mark @ '' Failed to get current volume for '' @ name_of speaker) None)
                   (return_js None))))
       (\<lambda>error.
          seq (console_error
                 (cross_mark @ '' Error getting current volume for '' @ name_of speaker @ '':'')
                 (Some error))
              (return_js None))"

definition setYamahaVolume :: "env \<Rightarrow> string \<Rightarrow> jsnum \<Rightarrow> response js" where
  "setYamahaVolume env speakerId vol =
     (case find_speaker speakerId of
        None \<Rightarrow> throw (Error (''Speaker '' @ speakerId @ '' not found''))
      | Some speaker \<Rightarrow>
          (let volumeValue = Math_round vol in
           try_catch
             (await (endpoints_of speaker) (\<lambda>ep.
              await (sendYamahaRequest env (ip_of speaker) (volume_ep ep)
                       (Some [''volume'' \<mapsto> QNum volumeValue]) (zone_of speaker))
                (\<lambda>response.
                   if success response then
                     await (getCurrentVolumeAndUpdate env speaker) (\<lambda>_. return_js response)
                   else throw (Error (''Failed to set volume for '' @ name_of speaker)))))
             (\<lambda>error.
                seq (console_error
                       (cross_mark @ '' Error setting volume for '' @ name_of speaker @ '':'')
                       (Some error))
                    (throw error))))"

definition setYamahaPower :: "env \<Rightarrow> string \<Rightarrow> bool \<Rightarrow> response js" where
  "setYamahaPower env speakerId powerOn =
     (case find_speaker speakerId of
        None \<Rightarrow> throw (Error (''Speaker '' @ speakerId @ '' not found''))
      | Some speaker \<Rightarrow>
          (let powerState = (if powerOn then ''on'' else ''standby'') in
           seq (console_log (''Setting power for '' @ name_of speaker @ '' ('' @ zone_of speaker
                             @ '' zone) to '' @ powerState))
             (try_catch
                (await (endpoints_of speaker) (\<lambda>ep.
                 await (sendYamahaRequest env (ip_of speaker) (power_ep ep)
                          (Some [''power'' \<mapsto> QStr powerState]) (zone_of speaker))
                   (\<lambda>response.
                      if success response then
                        seq (console_log (''Successfully set power for '' @ name_of speaker))
                            (return_js response)
                      else throw (Error (''Failed to set power for '' @ name_of speaker)))))
                (\<lambda>error.
                   seq (console_error (''Error setting power for '' @ name_of speaker @ '':'')
                          (Some error))
                       (throw error)))))"

definition setYamahaMute :: "env \<Rightarrow> string \<Rightarrow> bool \<Rightarrow> response js" where
  "setYamahaMute env speakerId muted =
     (case find_speaker speakerId of
        None \<Rightarrow> throw (Error (''Speaker '' @ speakerId @ '' not found''))
      | Some speaker \<Rightarrow>
          (let muteState = (if muted then ''true'' else ''false'') in
           seq (console_log (''Setting mute for '' @ name_of speaker @ '' ('' @ zone_of speaker
                             @ '' zone) to '' @ muteState))
             (try_catch
                (await (endpoints_of speaker) (\<lambda>ep.
                 await (sendYamahaRequest env (ip_of speaker) (mute_ep ep)
                          (Some [''mute'' \<mapsto> QStr muteState]) (zone_of speaker))
                   (\<lambda>response.
                      if success response then
                        seq (console_log (''Successfully set mute for '' @ name_of speaker))
                            (return_js response)
                      else throw (Error (''Failed to set mute for '' @ name_of speaker)))))
                (\<lambda>error.
                   seq (console_error (''Error setting mute for '' @ name_of speaker @ '':'')
                          (Some error))
                       (throw error)))))"

subsection \<open>The action handlers\<close>

text \<open>\<open>Math.ceil((PLAYBACK_COOLDOWN_MS - timeSinceLastCommand) / 1000)\<close>.\<close>

definition remainingCooldown :: "int \<Rightarrow> int" where
  "remainingCooldown timeSinceLastCommand =
     \<lceil>real_of_int (PLAYBACK_COOLDOWN_MS - timeSinceLastCommand) / 1000\<rceil>"

definition handleDeviceVolumeUp :: "env \<Rightarrow> string \<Rightarrow> unit js" where
  "handleDeviceVolumeUp env deviceId =
     (let currentTime = Date_now env in
      await (read lastPlaybackCommandTime) (\<lambda>last.
      let timeSinceLastCommand = currentTime - last in
      if timeSinceLastCommand < PLAYBACK_COOLDOWN_MS then
        console_log (hourglass @ '' Volume up command ignored - playback cooldown active (''
                     @ string_of_int (remainingCooldown timeSinceLastCommand) @ ''s remaining)'')
      else
        (case find_speaker deviceId of
           None \<Rightarrow> console_error (''Device not found: '' @ deviceId) None
         | Some speaker \<Rightarrow>
             try_catch
               (await (endpoints_of speaker) (\<lambda>ep.
                await (sendYamahaRequest env (ip_of speaker) (status_ep ep) None (zone_of speaker))
                  (\<lambda>statusResponse.
                     if success statusResponse then
                       await (parse_body env (data_body statusResponse)) (\<lambda>statusData.
                         let currentVolume = volume_sd statusData;
                             newVolume = Math_min 100 (plus_js currentVolume 10)
                         in await (setYamahaVolume env deviceId newVolume) (\<lambda>_. return_js ()))
                     else
                       console_error
                         (cross_mark @ '' Failed to get current volume for '' @ name_of speaker)
                         None)))
               (\<lambda>error.
                  console_error (cross_mark @ '' Error increasing volume for '' @ name_of speaker
                                 @ '':'') (Some error)))))"

definition handleDeviceVolumeDown :: "env \<Rightarrow> string \<Rightarrow> unit js" where
  "handleDeviceVolumeDown env deviceId =
     (let currentTime = Date_now env in
      await (read lastPlaybackCommandTime) (\<lambda>last.
      let timeSinceLastCommand = currentTime - last in
      if timeSinceLastCommand < PLAYBACK_COOLDOWN_MS then
        console_log (hourglass @ '' Volume down command ignored - playback cooldown active (''
                     @ string_of_int (remainingCooldown timeSinceLastCommand) @ ''s remaining)'')
      else
        (case find_speaker deviceId of
           None \<Rightarrow> console_error (''Device not found: '' @ deviceId) None
         | Some speaker \<Rightarrow>
             try_catch
               (await (endpoints_of speaker) (\<lambda>ep.
                await (sendYamahaRequest env (ip_of speaker) (status_ep ep) None (zone_of speaker))
                  (\<lambda>statusResponse.
                     if success statusResponse then
                       await (parse_body env (data_body statusResponse)) (\<lambda>statusData.
                         let currentVolume = volume_sd statusData;
                             newVolume = Math_max 0 (plus_js currentVolume (- 10))
                         in await (setYamahaVolume env deviceId newVolume) (\<lambda>_. return_js ()))
                     else
                       console_error
                         (cross_mark @ '' Failed to get current volume for '' @ name_of speaker)
                         None)))
               (\<lambda>error.
                  console_error (cross_mark @ '' Error decreasing volume for '' @ name_of speaker
                                 @ '':'') (Some error)))))"

definition handleDeviceMuteToggle :: "env \<Rightarrow> string \<Rightarrow> unit js" where
  "handleDeviceMuteToggle env deviceId =
     (case find_speaker deviceId of
        None \<Rightarrow> console_error (''Device not found: '' @ deviceId) None
      | Some speaker \<Rightarrow>
          try_catch
            (await (endpoints_of speaker) (\<lambda>ep.
             await (sendYamahaRequest env (ip_of speaker) (status_ep ep) None (zone_of speaker))
               (\<lambda>statusResponse.
                  if success statusResponse then
                    await (parse_body env (data_body statusResponse)) (\<lambda>statusData.
                      let isCurrentlyMuted = mute_sd statusData;
                          newMuteState = (\<not> isCurrentlyMuted)
                      in await (endpoints_of speaker) (\<lambda>ep'.
                         await (sendYamahaRequest env (ip_of speaker) (mute_ep ep')
                                  (Some [''enable'' \<mapsto>
                                           QStr (if newMuteState then ''true'' else ''false'')])
                                  (zone_of speaker))
                           (\<lambda>response.
                              if success response then
                                console_log (check_mark @ '' '' @ name_of speaker @ '' ''
                                             @ (if newMuteState then ''muted'' else ''unmuted''))
                              else
                                console_error
                                  (cross_mark @ '' Failed to toggle mute for '' @ name_of speaker)
                                  None)))
                  else
                    console_error
                      (cross_mark @ '' Failed to get mute status for '' @ name_of speaker) None)))
            (\<lambda>error.
               console_error (cross_mark @ '' Error toggling mute for '' @ name_of speaker @ '':'')
                 (Some error)))"

definition handleDevicePowerToggle :: "env \<Rightarrow> string \<Rightarrow> unit js" where
  "handleDevicePowerToggle env deviceId =
     (case find_speaker deviceId of
        None \<Rightarrow> console_error (''Device not found: '' @ deviceId) None
      | Some speaker \<Rightarrow>
          try_catch
            (await (endpoints_of speaker) (\<lambda>ep.
             await (sendYamahaRequest env (ip_of speaker) (status_ep ep) None (zone_of speaker))
               (\<lambda>statusResponse.
                  if success statusResponse then
                    await (parse_body env (data_body statusResponse)) (\<lambda>statusData.
                      let isCurrentlyOn = (power_sd statusData = Some ''on'');
                          newPowerState = (if isCurrentlyOn then ''standby'' else ''on'')
                      in await (endpoints_of speaker) (\<lambda>ep'.
                         await (sendYamahaRequest env (ip_of speaker) (power_ep ep')
                                  (Some [''power'' \<mapsto> QStr newPowerState]) (zone_of speaker))
                           (\<lambda>response.
                              if success response then
                                console_log (check_mark @ '' '' @ name_of speaker @ '' turned ''
                                             @ (if newPowerState = ''on'' then ''on'' else ''off''))
                              else
                                console_error
                                  (cross_mark @ '' Failed to toggle power for '' @ name_of speaker)
                                  None)))
                  else
                    console_error
                      (cross_mark @ '' Failed to get power status for '' @ name_of speaker) None)))
            (\<lambda>error.
               console_error (cross_mark @ '' Error toggling power for '' @ name_of speaker @ '':'')
                 (Some error)))"

definition handleDevicePowerOn :: "env \<Rightarrow> string \<Rightarrow> unit js" where
  "handleDevicePowerOn env deviceId =
     (case find_speaker deviceId of
        None \<Rightarrow> console_error (''Device not found: '' @ deviceId) None
      | Some speaker \<Rightarrow>
          try_catch
            (await (endpoints_of speaker) (\<lambda>ep.
             await (sendYamahaRequest env (ip_of speaker) (power_ep ep)
                      (Some [''power'' \<mapsto> QStr ''on'']) (zone_of speaker))
               (\<lambda>response.
                  if success response then
                    console_log (check_mark @ '' '' @ name_of speaker @ '' turned on'')
                  else
                    console_error (cross_mark @ '' Failed to turn on '' @ name_of speaker) None)))
            (\<lambda>error.
               console_error (cross_mark @ '' Error turning on '' @ name_of speaker @ '':'')
                 (Some error)))"

definition handleDevicePowerOff :: "env \<Rightarrow> string \<Rightarrow> unit js" where
  "handleDevicePowerOff env deviceId =
     (case find_speaker deviceId of
        None \<Rightarrow> console_error (''Device not found: '' @ deviceId) None
      | Some speaker \<Rightarrow>
          try_catch
            (await (endpoints_of speaker) (\<lambda>ep.
             await (sendYamahaRequest env (ip_of speaker) (power_ep ep)
                      (Some [''power'' \<mapsto> QStr ''standby'']) (zone_of speaker))
               (\<lambda>response.
                  if success response then
                    console_log (check_mark @ '' '' @ name_of speaker @ '' turned off'')
                  else
                    console_error (cross_mark @ '' Failed to turn off '' @ name_of speaker) None)))
            (\<lambda>error.
               console_error (cross_mark @ '' Error turning off '' @ name_of speaker @ '':'')
                 (Some error)))"

subsection \<open>Playback control and the twist handlers\<close>

definition getPlaybackStatus :: "env \<Rightarrow> speaker \<Rightarrow> string js" where
  "getPlaybackStatus env speaker =
     try_catch
       (await (endpoints_of speaker) (\<lambda>ep.
        await (sendYamahaRequest env (ip_of speaker) (status_ep ep) None (zone_of speaker))
          (\<lambda>response.
             if success response then
               await (parse_body env (data_body response)) (\<lambda>statusData.
                 if power_sd statusData \<noteq> Some ''on'' then return_js ''off''
                 else
                   await (sendYamahaRequest env (ip_of speaker)
                            ''/YamahaExtendedControl/v1/netusb/getPlayInfo'' None (zone_of speaker))
                     (\<lambda>netusbResponse.
                        if success netusbResponse then
                          await (parse_body env (data_body netusbResponse)) (\<lambda>netusbData.
                            return_js (first_truthy (\<lambda>s. s \<noteq> []) [playback_sd netusbData]
                                         ''unknown''))
                        else return_js ''unknown''))
             else
               seq (console_error
                      (cross_mark @ '' Failed to get playback status for '' @ name_of speaker) None)
                   (return_js ''unknown''))))
       (\<lambda>error.
          seq (console_error
                 (cross_mark @ '' Error getting playback status for '' @ name_of speaker @ '':'')
                 (Some error))
              (return_js ''unknown''))"

definition pausePlayback :: "env \<Rightarrow> speaker \<Rightarrow> unit js" where
  "pausePlayback env speaker =
     try_catch
       (await (sendYamahaRequest env (ip_of speaker)
                 ''/YamahaExtendedControl/v1/netusb/setPlayback''
                 (Some [''playback'' \<mapsto> QStr ''pause'']) (zone_of speaker))
          (\<lambda>response.
             if success response then
               console_log (pause_sign @ '' '' @ name_of speaker @ '' playback paused'')
             else console_error (cross_mark @ '' Failed to pause '' @ name_of speaker) None))
       (\<lambda>error.
          console_error (cross_mark @ '' Error pausing '' @ name_of speaker @ '':'') (Some error))"

definition resumePlayback :: "env \<Rightarrow> speaker \<Rightarrow> unit js" where
  "resumePlayback env speaker =
     try_catch
       (await (sendYamahaRequest env (ip_of speaker)
                 ''/YamahaExtendedControl/v1/netusb/setPlayback''
                 (Some [''playback'' \<mapsto> QStr ''play'']) (zone_of speaker))
          (\<lambda>response.
             if success response then
               console_log (play_sign @ '' '' @ name_of speaker @ '' playback resumed'')
             else console_error (cross_mark @ '' Failed to resume '' @ name_of speaker) None))
       (\<lambda>error.
          console_error (cross_mark @ '' Error resuming '' @ name_of speaker @ '':'') (Some error))"

definition skipToNextTrack :: "env \<Rightarrow> speaker \<Rightarrow> unit js" where
  "skipToNextTrack env speaker =
     try_catch
       (await (sendYamahaRequest env (ip_of speaker)
                 ''/YamahaExtendedControl/v1/netusb/setPlayback''
                 (Some [''playback'' \<mapsto> QStr ''next'']) (zone_of speaker))
          (\<lambda>response.
             if success response then
               console_log (next_sign @ '' '' @ name_of speaker @ '' skipped to next track'')
             else console_error (cross_mark @ '' Failed to skip track on '' @ name_of speaker) None))
       (\<lambda>error.
          console_error (cross_mark @ '' Error skipping track on '' @ name_of speaker @ '':'')
            (Some error))"

text \<open>
  The values a twist sends: \<open>values.volume\<close>, \<open>None\<close> when it is \<open>undefined\<close>.
  The arithmetic on it is done on real numbers.
\<close>

record twist_values =
  volume :: "real option"

text \<open>The body of the loop over the speakers in \<open>handleSkipDeviceUpdate\<close>.\<close>

definition playbackControl :: "env \<Rightarrow> real \<Rightarrow> speaker \<Rightarrow> unit js" where
  "playbackControl env volumeChange speaker =
     try_catch
       (await (getPlaybackStatus env speaker) (\<lambda>playbackStatus.
          if volumeChange < 0 then
            (if playbackStatus = ''play'' then pausePlayback env speaker else return_js ())
          else if volumeChange > 0 then
            (if playbackStatus = ''pause'' then resumePlayback env speaker
             else if playbackStatus = ''play'' then skipToNextTrack env speaker
             else return_js ())
          else return_js ()))
       (\<lambda>error.
          console_error (cross_mark @ '' Error handling playback control for '' @ name_of speaker
                         @ '':'') (Some error))"

definition resetSkipDevice :: "unit js" where
  "resetSkipDevice = emit (VirtualDeviceUpdateState ''Speaker'' ''skip'' (Some 0.5))"

definition handleSkipDeviceUpdate :: "env \<Rightarrow> string \<Rightarrow> twist_values \<Rightarrow> unit js" where
  "handleSkipDeviceUpdate env deviceId values =
     (if deviceId \<noteq> ''skip'' then return_js ()
      else
        (case volume values of
           None \<Rightarrow> resetSkipDevice
         | Some v \<Rightarrow>
             (let volumeChange = v - 0.5;
                  isPlaybackCommand = (\<bar>volumeChange\<bar> > 0.1)
              in if isPlaybackCommand then
                   (let currentTime = Date_now env in
                    await (read lastPlaybackCommandTime) (\<lambda>last.
                    let timeSinceLastCommand = currentTime - last in
                    if timeSinceLastCommand < PLAYBACK_COOLDOWN_MS then
                      seq (console_log
                             (hourglass @ '' Playback command ignored - cooldown active (''
                              @ string_of_int (remainingCooldown timeSinceLastCommand)
                              @ ''s remaining)''))
                          resetSkipDevice
                    else
                      seq (forEach (playbackControl env volumeChange) YAMAHA_CONFIG_speakers)
                     (seq (\<lambda>s. (Inr (), s\<lparr>lastPlaybackCommandTime := currentTime\<rparr>))
                          resetSkipDevice)))
                 else resetSkipDevice)))"

definition handleYamahaSpeakerUpdate :: "env \<Rightarrow> string \<Rightarrow> twist_values \<Rightarrow> unit js" where
  "handleYamahaSpeakerUpdate env deviceId values =
     (case volume values of
        None \<Rightarrow> return_js ()
      | Some v \<Rightarrow>
          (let currentTime = Date_now env in
           await (read lastPlaybackCommandTime) (\<lambda>last.
           let timeSinceLastCommand = currentTime - last in
           if timeSinceLastCommand < PLAYBACK_COOLDOWN_MS then
             console_log (hourglass @ '' Volume change ignored - playback cooldown active (''
                          @ string_of_int (remainingCooldown timeSinceLastCommand)
                          @ ''s remaining)'')
           else
             (let volumePercentage = \<lfloor>v * 100 + 1 / 2\<rfloor> in
              try_catch
                (await (setYamahaVolume env deviceId (Num volumePercentage)) (\<lambda>_.
                   (\<lambda>s. (Inr (), s\<lparr>currentVolume := volumePercentage\<rparr>))))
                (\<lambda>error.
                   console_error (cross_mark @ '' Failed to update Yamaha speaker '' @ deviceId
                                  @ '':'') (Some error))))))"

subsection \<open>The event handlers\<close>

text \<open>
  \<open>flicApp.on('actionMessage', ...)\<close>. The handler it starts is run to its end
  before the next event is looked at.
\<close>

definition actionMessage :: "env \<Rightarrow> string \<Rightarrow> unit js" where
  "actionMessage env message =
     seq (console_log (''Received action message: '' @ message))
       (let parts = split_space (toLowerCase message) in
        if length parts \<ge> 2 then
          (let deviceId = parts ! 0;
               action = join '' '' (drop 1 parts)
           in case find_speaker deviceId of
                None \<Rightarrow> console_log (''Unknown device: '' @ deviceId)
              | Some speaker \<Rightarrow>
                  if action = ''volume up'' then handleDeviceVolumeUp env deviceId
                  else if action = ''volume down'' then handleDeviceVolumeDown env deviceId
                  else if action = ''mute'' then handleDeviceMuteToggle env deviceId
                  else if action = ''power'' then handleDevicePowerToggle env deviceId
                  else if action = ''on'' then handleDevicePowerOn env deviceId
                  else if action = ''off'' then handleDevicePowerOff env deviceId
                  else console_log (''Unknown action for device '' @ deviceId @ '': '' @ action))
        else console_log (''Invalid action message format. Expected: '' @ [CHR 0x22]
                          @ ''{device-id} {action}'' @ [CHR 0x22]))"

record metaData =
  dimmableType :: string
  virtualDeviceId :: string

definition virtualDeviceUpdate :: "env \<Rightarrow> metaData \<Rightarrow> twist_values \<Rightarrow> unit js" where
  "virtualDeviceUpdate env md values =
     (if dimmableType md = ''Speaker'' then
        (if virtualDeviceId md = ''skip'' then
           handleSkipDeviceUpdate env (virtualDeviceId md) values
         else handleYamahaSpeakerUpdate env (virtualDeviceId md) values)
      else return_js ())"

section \<open>Properties of a run\<close>

text \<open>What a computation added to the history.\<close>

definition new_events :: "state \<Rightarrow> state \<Rightarrow> event list" where
  "new_events s s' = drop (length (trace s)) (trace s')"

fun is_http :: "event \<Rightarrow> bool" where
  "is_http (Http req r) = True"
| "is_http _ = False"

definition requests :: "event list \<Rightarrow> event list" where
  "requests evs = filter is_http evs"


text \<open>
  Caught, logged, not retried: a rejected request is followed at once by a
  \<open>console.error\<close> that carries the rejection, and by no further request.
\<close>

fun logged_final :: "event list \<Rightarrow> bool" where
  "logged_final [] = True"
| "logged_final (Http req (Inl e) # rest) =
     (case rest of
        ConsoleError m (Some e') # rest' \<Rightarrow> e' = e \<and> \<not> list_ex is_http rest'
      | _ \<Rightarrow> False)"
| "logged_final (ev # rest) = logged_final rest"

text \<open>
  The requests that the skip handler makes for one speaker, in the order of the
  code: the status of its zone, the play info, and one playback command.
\<close>

definition status_request :: "speaker \<Rightarrow> request" where
  "status_request sp =
     requestOptions (ip_of sp)
       (case YAMAHA_CONFIG_endpoints (zone_of sp) of None \<Rightarrow> [] | Some ep \<Rightarrow> status_ep ep) None"

definition getPlayInfo_request :: "speaker \<Rightarrow> request" where
  "getPlayInfo_request sp =
     requestOptions (ip_of sp) ''/YamahaExtendedControl/v1/netusb/getPlayInfo'' None"

definition setPlayback_request :: "speaker \<Rightarrow> string \<Rightarrow> request" where
  "setPlayback_request sp p =
     requestOptions (ip_of sp) ''/YamahaExtendedControl/v1/netusb/setPlayback''
       (Some [''playback'' \<mapsto> QStr p])"

definition speaker_requests :: "speaker \<Rightarrow> string \<Rightarrow> request list" where
  "speaker_requests sp p = [status_request sp, getPlayInfo_request sp, setPlayback_request sp p]"

text \<open>
  \<open>consume evs qs\<close> strikes the requests made in \<open>evs\<close> off the list \<open>qs\<close>, one
  after the other; it is \<open>None\<close> when a request is made that is not the next one
  of \<open>qs\<close>. So with \<open>consume evs qs \<noteq> None\<close> the requests of \<open>evs\<close> are the first
  ones of \<open>qs\<close>, in this order, and none of them is made twice.
\<close>

fun consume :: "event list \<Rightarrow> request list \<Rightarrow> request list option" where
  "consume [] qs = Some qs"
| "consume (Http req r # evs) [] = None"
| "consume (Http req r # evs) (q # qs) = (if req = q then consume evs qs else None)"
| "consume (ev # evs) qs = consume evs qs"

text \<open>
  The events of the skip handler for one speaker: caught, logged and not retried,
  and the requests are those of this speaker, each one at most once and in order.
\<close>

definition speaker_segment :: "speaker \<Rightarrow> event list \<Rightarrow> bool" where
  "speaker_segment sp evs =
     (logged_final evs \<and>
      (\<exists>p \<in> {''pause'', ''play'', ''next''}. consume evs (speaker_requests sp p) \<noteq> None))"

text \<open>
  The skip handler works speaker by speaker: when it makes requests at all, its
  events are one segment for each configured speaker, in the order of the table and
  each the segment of that speaker, followed by events that are no requests.
\<close>

definition logged_final_per_speaker :: "event list \<Rightarrow> bool" where
  "logged_final_per_speaker evs =
     (\<exists>segs rest. evs = concat segs @ rest
        \<and> (segs = [] \<or> list_all2 speaker_segment YAMAHA_CONFIG_speakers segs)
        \<and> \<not> list_ex is_http rest)"

fun starts_with :: "string \<Rightarrow> string \<Rightarrow> bool" where
  "starts_with [] s = True"
| "starts_with (c # cs) [] = False"
| "starts_with (c # cs) (d # ds) = (c = d \<and> starts_with cs ds)"

text \<open>
  The traces of an \<open>else\<close> branch of a test of \<open>response.success\<close>: the thrown
  \<open>Error('Failed to ...')\<close>, and the \<open>console.error\<close> with the single argument
  \<open>'Failed to ...'\<close> behind the cross mark. (A \<open>catch\<close> block logs with two
  arguments; then the second one is looked at.)
\<close>

fun failed_error :: "jserror \<Rightarrow> bool" where
  "failed_error (Error msg) = starts_with ''Failed to '' msg"
| "failed_error _ = False"

fun else_branch :: "event \<Rightarrow> bool" where
  "else_branch (ConsoleError msg None) = starts_with (cross_mark @ '' Failed to '') msg"
| "else_branch (ConsoleError msg (Some e)) = failed_error e"
| "else_branch _ = False"

definition run_ok :: "nat \<Rightarrow> event list \<Rightarrow> bool" where
  "run_ok n evs =
     (logged_final evs \<and> \<not> list_ex else_branch evs \<and> length (requests evs) \<le> n)"

text \<open>
  The query string as the specification describes it: of the keys \<open>volume\<close>,
  \<open>power\<close>, \<open>mute\<close>, \<open>enable\<close> and \<open>playback\<close>, those that are present,
  each with its URI-encoded value, joined with \<open>&\<close> behind a \<open>?\<close>. It is
  compared with the URL that \<open>sendYamahaRequest\<close> builds.
\<close>

definition query_keys :: "string list" where
  "query_keys = [''volume'', ''power'', ''mute'', ''enable'', ''playback'']"

definition query_string :: "(string \<rightharpoonup> qval) \<Rightarrow> string" where
  "query_string d =
     (let present = concat (map (\<lambda>k. case d k of
                                         None \<Rightarrow> []
                                       | Some v \<Rightarrow> [k @ ''='' @ encodeURIComponent (String_js v)])
                              query_keys)
      in if present = [] then [] else ''?'' @ join ''&'' present)"

fun is_rejected :: "event \<Rightarrow> bool" where
  "is_rejected (Http req (Inl e)) = True"
| "is_rejected _ = False"

text \<open>
  A summary of a computation that touches no variable: from every state it appends
  some events to the history, and the events and the outcome satisfy \<open>P\<close>.
\<close>

definition runs :: "'a js \<Rightarrow> (event list \<Rightarrow> (jserror + 'a) \<Rightarrow> bool) \<Rightarrow> bool" where
  "runs m P = (\<forall>s. \<exists>evs. snd (m s) = s\<lparr>trace := trace s @ evs\<rparr> \<and> P evs (fst (m s)))"

text \<open>Some concrete worlds and a start state, to run the handlers on.\<close>

definition status_body :: status_data where
  "status_body = \<lparr>volume_sd = Num 40, mute_sd = False, power_sd = Some ''on'',
                  playback_sd = Some ''play''\<rparr>"

definition ok_result :: http_result where
  "ok_result = \<lparr>statusCode = Some 200, status = None, content = Some ''{}'', body = None,
                data = None, headers_r = None, statusMessage = None\<rparr>"

definition env_ok :: env where
  "env_ok = \<lparr>http_makeRequest = (\<lambda>h r. Completes 10 None (Some ok_result)),
             JSON_parse = (\<lambda>b. Some (JValue status_body)),
             Date_now = 10000\<rparr>"

definition env_silent :: env where
  "env_silent = \<lparr>http_makeRequest = (\<lambda>h r. Never),
                 JSON_parse = (\<lambda>b. Some (JValue status_body)),
                 Date_now = 10000\<rparr>"

definition env_refused :: env where
  "env_refused = \<lparr>http_makeRequest = (\<lambda>h r. Completes 10 (Some ''ECONNREFUSED'') None),
                  JSON_parse = (\<lambda>b. Some (JValue status_body)),
                  Date_now = 10000\<rparr>"

definition env_late :: env where
  "env_late = \<lparr>http_makeRequest = (\<lambda>h r. Completes 6000 None (Some ok_result)),
               JSON_parse = (\<lambda>b. Some (JValue status_body)),
               Date_now = 10000\<rparr>"

definition error_result :: http_result where
  "error_result = \<lparr>statusCode = Some 500, status = None, content = Some ''Internal Server Error'',
                   body = None, data = None, headers_r = None,
                   statusMessage = Some ''Internal Server Error''\<rparr>"

definition env_error_status :: env where
  "env_error_status = \<lparr>http_makeRequest = (\<lambda>h r. Completes 10 None (Some error_result)),
                       JSON_parse = (\<lambda>b. None),
                       Date_now = 10000\<rparr>"

text \<open>
  The dispatch table of the specification ("a dispatch table mapping string commands
  to handler functions"): the handler that belongs to an action. It is compared with
  the \<open>switch\<close> of \<open>actionMessage\<close> below.
\<close>

definition dispatch_table :: "string \<Rightarrow> (env \<Rightarrow> string \<Rightarrow> unit js) option" where
  "dispatch_table =
     map_of [(''volume up'', handleDeviceVolumeUp),
             (''volume down'', handleDeviceVolumeDown),
             (''mute'', handleDeviceMuteToggle),
             (''power'', handleDevicePowerToggle),
             (''on'', handleDevicePowerOn),
             (''off'', handleDevicePowerOff)]"

text \<open>The skip device is put back to its centre position.\<close>

definition reset_event :: event where
  "reset_event = VirtualDeviceUpdateState ''Speaker'' ''skip'' (Some 0.5)"

text \<open>A device that lets the second request of a run go unanswered.\<close>

definition env_flaky :: env where
  "env_flaky = \<lparr>http_makeRequest =
                  (\<lambda>h r. if length (requests h) = 1 then Never
                         else Completes 10 None (Some ok_result)),
                JSON_parse = (\<lambda>b. Some (JValue status_body)),
                Date_now = 10000\<rparr>"

fun url_of :: "event \<Rightarrow> string" where
  "url_of (Http req r) = url req"
| "url_of _ = []"

definition state0 :: state where
  "state0 = \<lparr>lastPlaybackCommandTime = 0, currentVolume = 50, mainZoneVolume = 50,
             zone2Volume = 50, trace = []\<rparr>"

definition state_cooling :: state where
  "state_cooling = \<lparr>lastPlaybackCommandTime = 9000, currentVolume = 50, mainZoneVolume = 50,
                    zone2Volume = 50, trace = []\<rparr>"

section \<open>The request wrapper\<close>

lemma settle_success: "settle raw = Inr resp \<Longrightarrow> success resp"
  by (auto simp: settle_def Let_def split: raw_outcome.splits if_splits option.splits)

lemma settle_error: "settle raw = Inl e \<Longrightarrow> \<not> failed_error e"
  by (auto simp: settle_def Let_def split: raw_outcome.splits if_splits option.splits)

lemma trace_upd_id [simp]: "(s = s\<lparr>trace := trace s @ evs\<rparr>) \<longleftrightarrow> evs = []"
  by (cases s) auto

lemma trace_upd_id' [simp]: "(s\<lparr>trace := trace s @ evs\<rparr> = s) \<longleftrightarrow> evs = []"
  by (cases s) auto

lemma send_run:
  "sendYamahaRequest env ip ep dat z s = (r, s') \<Longrightarrow>
     s' = s\<lparr>trace := trace s @ [Http (requestOptions ip ep dat) r]\<rparr> \<and>
     (case r of Inl e \<Rightarrow> \<not> failed_error e | Inr resp \<Rightarrow> success resp)"
  by (auto simp: sendYamahaRequest_def Let_def dest: settle_success settle_error
      split: sum.splits)

text \<open>
  C4. \<open>sendYamahaRequest\<close> has a fixed timeout of 5000 ms for each request: when the
  underlying request has not completed by then (its callback runs at 5000 ms or
  later, or never), the promise is rejected with \<open>Request timeout\<close>; when it
  completes in time with an error, the promise is rejected with
  \<open>HTTP request failed: ...\<close>; otherwise the promise resolves.
\<close>

theorem sendYamahaRequest_timeout:
  "http_makeRequest env (trace s) (requestOptions ip endpoint dat) = raw \<Longrightarrow>
     (raw = Never \<or> (raw = Completes d err res \<and> 5000 \<le> d) \<longrightarrow>
        fst (sendYamahaRequest env ip endpoint dat zone s) = Inl (Error ''Request timeout'')) \<and>
     (raw = Completes d (Some e) res \<and> d < 5000 \<longrightarrow>
        fst (sendYamahaRequest env ip endpoint dat zone s)
          = Inl (Error (''HTTP request failed: '' @ e))) \<and>
     (raw = Completes d None res \<and> d < 5000 \<longrightarrow>
        (\<exists>resp. fst (sendYamahaRequest env ip endpoint dat zone s) = Inr resp))"
  by (auto simp: sendYamahaRequest_def settle_def Let_def REQUEST_TIMEOUT_MS_def)

theorem sendYamahaRequest_timeout_witness:
  "fst (sendYamahaRequest env_silent ''10.0.0.2'' ''/x'' None ''main'' state0)
     = Inl (Error ''Request timeout'') \<and>
   fst (sendYamahaRequest env_late ''10.0.0.2'' ''/x'' None ''main'' state0)
     = Inl (Error ''Request timeout'') \<and>
   fst (sendYamahaRequest env_refused ''10.0.0.2'' ''/x'' None ''main'' state0)
     = Inl (Error ''HTTP request failed: ECONNREFUSED'') \<and>
   (\<exists>resp. fst (sendYamahaRequest env_ok ''10.0.0.2'' ''/x'' None ''main'' state0) = Inr resp)"
  using
    sendYamahaRequest_timeout [where env = env_silent and s = state0 and ip = "''10.0.0.2''"
      and endpoint = "''/x''" and dat = None and zone = "''main''" and raw = Never]
    sendYamahaRequest_timeout [where env = env_late and s = state0 and ip = "''10.0.0.2''"
      and endpoint = "''/x''" and dat = None and zone = "''main''"
      and raw = "Completes 6000 None (Some ok_result)" and d = 6000 and err = None
      and res = "Some ok_result"]
    sendYamahaRequest_timeout [where env = env_refused and s = state0 and ip = "''10.0.0.2''"
      and endpoint = "''/x''" and dat = None and zone = "''main''"
      and raw = "Completes 10 (Some ''ECONNREFUSED'') None" and d = 10
      and e = "''ECONNREFUSED''" and res = None]
    sendYamahaRequest_timeout [where env = env_ok and s = state0 and ip = "''10.0.0.2''"
      and endpoint = "''/x''" and dat = None and zone = "''main''"
      and raw = "Completes 10 None (Some ok_result)" and d = 10 and res = "Some ok_result"]
  by (simp add: env_silent_def env_late_def env_refused_def env_ok_def)

section \<open>Summaries of the functions\<close>

lemma logged_final_append: "logged_final a \<Longrightarrow> \<not> list_ex is_http b \<Longrightarrow> logged_final (a @ b)"
proof (induction a rule: logged_final.induct)
  case 1
  then show ?case by (induction b rule: logged_final.induct) auto
next
  case (2 req e rest)
  then show ?case by (auto split: list.splits event.splits option.splits)
qed auto


lemma resolved_append: "\<not> list_ex is_rejected a \<Longrightarrow> logged_final b \<Longrightarrow> logged_final (a @ b)"
  by (induction a rule: logged_final.induct) auto

lemma run_ok_mono: "run_ok n evs \<Longrightarrow> n \<le> m \<Longrightarrow> run_ok m evs"
  by (simp add: run_ok_def)

lemma runs_return: "P [] (Inr x) \<Longrightarrow> runs (return_js x) P"
  by (simp add: runs_def return_js_def)

lemma runs_throw: "P [] (Inl e) \<Longrightarrow> runs (throw e) P"
  by (simp add: runs_def throw_def)

lemma runs_emit: "P [ev] (Inr ()) \<Longrightarrow> runs (emit ev) P"
  by (auto simp: runs_def emit_def)

lemma runs_console_log: "P [ConsoleLog msg] (Inr ()) \<Longrightarrow> runs (console_log msg) P"
  by (simp add: console_log_def runs_emit)

lemma runs_console_error: "P [ConsoleError msg err] (Inr ()) \<Longrightarrow> runs (console_error msg err) P"
  by (simp add: console_error_def runs_emit)

lemma runs_read: "(\<And>v. P [] (Inr v)) \<Longrightarrow> runs (read f) P"
  by (simp add: runs_def read_def)

lemma runs_await:
  assumes "runs m (\<lambda>evs r. case r of Inl e \<Rightarrow> P evs (Inl e)
                                   | Inr x \<Rightarrow> runs (k x) (\<lambda>evs' r'. P (evs @ evs') r'))"
  shows "runs (await m k) P"
  unfolding runs_def
proof
  fix s
  from assms obtain evs where m: "snd (m s) = s\<lparr>trace := trace s @ evs\<rparr>"
    and post: "case fst (m s) of Inl e \<Rightarrow> P evs (Inl e)
               | Inr x \<Rightarrow> runs (k x) (\<lambda>evs' r'. P (evs @ evs') r')"
    unfolding runs_def by blast
  show "\<exists>evs. snd (await m k s) = s\<lparr>trace := trace s @ evs\<rparr> \<and> P evs (fst (await m k s))"
  proof (cases "fst (m s)")
    case (Inl e)
    with m post show ?thesis
      by (cases "m s") (auto simp: await_def)
  next
    case (Inr x)
    with post have "runs (k x) (\<lambda>evs' r'. P (evs @ evs') r')" by simp
    then obtain evs' where k: "snd (k x (snd (m s))) = (snd (m s))\<lparr>trace := trace (snd (m s)) @ evs'\<rparr>"
      and P: "P (evs @ evs') (fst (k x (snd (m s))))"
      unfolding runs_def by blast
    from Inr have "await m k s = k x (snd (m s))"
      by (cases "m s") (auto simp: await_def)
    with k P m show ?thesis
      by (intro exI [of _ "evs @ evs'"]) simp
  qed
qed

lemma runs_seq:
  assumes "runs m (\<lambda>evs r. case r of Inl e \<Rightarrow> P evs (Inl e)
                                   | Inr x \<Rightarrow> runs k (\<lambda>evs' r'. P (evs @ evs') r'))"
  shows "runs (seq m k) P"
  unfolding seq_def using assms by (rule runs_await)

lemma runs_try_catch:
  assumes "runs m (\<lambda>evs r. case r of Inl e \<Rightarrow> runs (h e) (\<lambda>evs' r'. P (evs @ evs') r')
                                   | Inr x \<Rightarrow> P evs (Inr x))"
  shows "runs (try_catch m h) P"
  unfolding runs_def
proof
  fix s
  from assms obtain evs where m: "snd (m s) = s\<lparr>trace := trace s @ evs\<rparr>"
    and post: "case fst (m s) of Inl e \<Rightarrow> runs (h e) (\<lambda>evs' r'. P (evs @ evs') r')
               | Inr x \<Rightarrow> P evs (Inr x)"
    unfolding runs_def by blast
  show "\<exists>evs. snd (try_catch m h s) = s\<lparr>trace := trace s @ evs\<rparr>
          \<and> P evs (fst (try_catch m h s))"
  proof (cases "fst (m s)")
    case (Inr x)
    with m post show ?thesis
      by (cases "m s") (auto simp: try_catch_def)
  next
    case (Inl e)
    with post have "runs (h e) (\<lambda>evs' r'. P (evs @ evs') r')" by simp
    then obtain evs' where k: "snd (h e (snd (m s))) = (snd (m s))\<lparr>trace := trace (snd (m s)) @ evs'\<rparr>"
      and P: "P (evs @ evs') (fst (h e (snd (m s))))"
      unfolding runs_def by blast
    from Inl have "try_catch m h s = h e (snd (m s))"
      by (cases "m s") (auto simp: try_catch_def)
    with k P m show ?thesis
      by (intro exI [of _ "evs @ evs'"]) simp
  qed
qed

lemma runs_conseq: "runs m Q \<Longrightarrow> (\<And>evs r. Q evs r \<Longrightarrow> P evs r) \<Longrightarrow> runs m P"
  unfolding runs_def by blast

lemma runs_send:
  assumes "\<And>r. (case r of Inl e \<Rightarrow> \<not> failed_error e | Inr resp \<Rightarrow> success resp)
            \<Longrightarrow> P [Http (requestOptions ip ep dat) r] r"
  shows "runs (sendYamahaRequest env ip ep dat z) P"
  unfolding runs_def
proof
  fix s
  obtain r s' where run: "sendYamahaRequest env ip ep dat z s = (r, s')"
    by (cases "sendYamahaRequest env ip ep dat z s")
  from send_run [OF run] assms [of r] run
  show "\<exists>evs. snd (sendYamahaRequest env ip ep dat z s) = s\<lparr>trace := trace s @ evs\<rparr>
          \<and> P evs (fst (sendYamahaRequest env ip ep dat z s))"
    by auto
qed

lemma runs_endpoints_of:
  "(\<And>ep. P [] (Inr ep)) \<Longrightarrow> P [] (Inl TypeError) \<Longrightarrow> runs (endpoints_of sp) P"
  by (auto simp: endpoints_of_def runs_return runs_throw split: option.splits)

lemma runs_parse_body:
  "(\<And>sd. P [] (Inr sd)) \<Longrightarrow> P [] (Inl TypeError) \<Longrightarrow> P [] (Inl SyntaxError)
     \<Longrightarrow> runs (parse_body env b) P"
  by (auto simp: parse_body_def runs_return runs_throw split: option.splits parsed.splits)

lemmas runs_intros = runs_return runs_throw runs_emit runs_console_log runs_console_error
  runs_read runs_await runs_seq runs_try_catch runs_send runs_endpoints_of runs_parse_body

lemmas run_splits = sum.splits option.splits if_splits

lemma gcv_runs:
  "runs (getCurrentVolumeAndUpdate env sp) (\<lambda>evs r. (\<exists>x. r = Inr x) \<and> run_ok 1 evs)"
  unfolding getCurrentVolumeAndUpdate_def Let_def
  by (auto intro!: runs_intros simp: run_ok_def requests_def cross_mark_def split: run_splits)

lemma setvol_runs:
  "runs (setYamahaVolume env d v)
     (\<lambda>evs r. run_ok 2 evs \<and> (\<forall>e. r = Inl e \<longrightarrow> \<not> failed_error e))"
  unfolding setYamahaVolume_def Let_def
  by (auto intro!: runs_intros runs_conseq [OF gcv_runs]
      simp: run_ok_def requests_def cross_mark_def split: run_splits)

lemma setpower_runs:
  "runs (setYamahaPower env d v)
     (\<lambda>evs r. run_ok 1 evs \<and> (\<forall>e. r = Inl e \<longrightarrow> \<not> failed_error e))"
  unfolding setYamahaPower_def Let_def
  by (auto intro!: runs_intros simp: run_ok_def requests_def cross_mark_def split: run_splits)

lemma setmute_runs:
  "runs (setYamahaMute env d v)
     (\<lambda>evs r. run_ok 1 evs \<and> (\<forall>e. r = Inl e \<longrightarrow> \<not> failed_error e))"
  unfolding setYamahaMute_def Let_def
  by (auto intro!: runs_intros simp: run_ok_def requests_def cross_mark_def split: run_splits)

lemma up_runs:
  "runs (handleDeviceVolumeUp env d) (\<lambda>evs r. r = Inr () \<and> run_ok 3 evs)"
  unfolding handleDeviceVolumeUp_def Let_def
  by (auto intro!: runs_intros runs_conseq [OF setvol_runs] logged_final_append
      simp: run_ok_def requests_def cross_mark_def split: run_splits)

lemma down_runs:
  "runs (handleDeviceVolumeDown env d) (\<lambda>evs r. r = Inr () \<and> run_ok 3 evs)"
  unfolding handleDeviceVolumeDown_def Let_def
  by (auto intro!: runs_intros runs_conseq [OF setvol_runs] logged_final_append
      simp: run_ok_def requests_def cross_mark_def split: run_splits)

lemma mute_runs:
  "runs (handleDeviceMuteToggle env d) (\<lambda>evs r. r = Inr () \<and> run_ok 2 evs)"
  unfolding handleDeviceMuteToggle_def Let_def
  by (auto intro!: runs_intros simp: run_ok_def requests_def cross_mark_def split: run_splits)

lemma power_runs:
  "runs (handleDevicePowerToggle env d) (\<lambda>evs r. r = Inr () \<and> run_ok 2 evs)"
  unfolding handleDevicePowerToggle_def Let_def
  by (auto intro!: runs_intros simp: run_ok_def requests_def cross_mark_def split: run_splits)

lemma on_runs:
  "runs (handleDevicePowerOn env d) (\<lambda>evs r. r = Inr () \<and> run_ok 1 evs)"
  unfolding handleDevicePowerOn_def Let_def
  by (auto intro!: runs_intros simp: run_ok_def requests_def cross_mark_def split: run_splits)

lemma off_runs:
  "runs (handleDevicePowerOff env d) (\<lambda>evs r. r = Inr () \<and> run_ok 1 evs)"
  unfolding handleDevicePowerOff_def Let_def
  by (auto intro!: runs_intros simp: run_ok_def requests_def cross_mark_def split: run_splits)

lemma status_runs:
  "runs (getPlaybackStatus env sp)
     (\<lambda>evs r. run_ok 2 evs \<and> (\<exists>x. r = Inr x \<and> (list_ex is_rejected evs \<longrightarrow> x = ''unknown'')))"
  unfolding getPlaybackStatus_def Let_def
  by (auto intro!: runs_intros simp: run_ok_def requests_def cross_mark_def split: run_splits)

lemma pause_runs:
  "runs (pausePlayback env sp) (\<lambda>evs r. r = Inr () \<and> run_ok 1 evs)"
  unfolding pausePlayback_def
  by (auto intro!: runs_intros simp: run_ok_def requests_def cross_mark_def split: run_splits)

lemma resume_runs:
  "runs (resumePlayback env sp) (\<lambda>evs r. r = Inr () \<and> run_ok 1 evs)"
  unfolding resumePlayback_def
  by (auto intro!: runs_intros simp: run_ok_def requests_def cross_mark_def split: run_splits)

lemma next_runs:
  "runs (skipToNextTrack env sp) (\<lambda>evs r. r = Inr () \<and> run_ok 1 evs)"
  unfolding skipToNextTrack_def
  by (auto intro!: runs_intros simp: run_ok_def requests_def cross_mark_def split: run_splits)

lemma playbackControl_runs:
  "runs (playbackControl env c sp) (\<lambda>evs r. r = Inr () \<and> run_ok 3 evs)"
  unfolding playbackControl_def
  by (auto intro!: runs_intros runs_conseq [OF status_runs] runs_conseq [OF pause_runs]
        runs_conseq [OF resume_runs] runs_conseq [OF next_runs] resolved_append
      simp: run_ok_def requests_def cross_mark_def split: run_splits)

lemma forEach_runs:
  assumes body: "\<And>x. runs (f x) (\<lambda>evs r. r = Inr () \<and> Q evs)"
  shows "runs (forEach f xs)
           (\<lambda>evs r. r = Inr () \<and>
              (\<exists>segs. evs = concat segs \<and> length segs = length xs \<and> list_all Q segs))"
proof (induction xs)
  case Nil
  show ?case by (simp add: runs_return)
next
  case (Cons x xs)
  let ?P = "\<lambda>evs r. r = Inr () \<and>
              (\<exists>segs. evs = concat segs \<and> length segs = length (x # xs) \<and> list_all Q segs)"
  have "runs (f x) (\<lambda>evs r. case r of Inl e \<Rightarrow> ?P evs (Inl e)
                            | Inr u \<Rightarrow> runs (forEach f xs) (\<lambda>evs' r'. ?P (evs @ evs') r'))"
  proof (rule runs_conseq [OF body])
    fix evs r
    assume first: "r = Inr () \<and> Q evs"
    have "runs (forEach f xs) (\<lambda>evs' r'. ?P (evs @ evs') r')"
    proof (rule runs_conseq [OF Cons.IH])
      fix evs' r'
      assume "r' = Inr () \<and>
                (\<exists>segs. evs' = concat segs \<and> length segs = length xs \<and> list_all Q segs)"
      then obtain segs where "r' = Inr ()" "evs' = concat segs" "length segs = length xs"
        "list_all Q segs" by blast
      with first show "?P (evs @ evs') r'"
        by (intro conjI exI [of _ "evs # segs"]) simp_all
    qed
    with first show "case r of Inl e \<Rightarrow> ?P evs (Inl e)
                     | Inr u \<Rightarrow> runs (forEach f xs) (\<lambda>evs' r'. ?P (evs @ evs') r')"
      by simp
  qed
  then have "runs (seq (f x) (forEach f xs)) ?P"
    by (rule runs_seq)
  then show ?case by simp
qed

lemma runs_new_events:
  assumes "runs m P"
  shows "P (new_events s (snd (m s))) (fst (m s))"
    and "snd (m s) = s\<lparr>trace := trace s @ new_events s (snd (m s))\<rparr>"
proof -
  from assms obtain evs where "snd (m s) = s\<lparr>trace := trace s @ evs\<rparr>" "P evs (fst (m s))"
    unfolding runs_def by blast
  then show "P (new_events s (snd (m s))) (fst (m s))"
    and "snd (m s) = s\<lparr>trace := trace s @ new_events s (snd (m s))\<rparr>"
    by (simp_all add: new_events_def)
qed

lemma skip_playback:
  assumes "volume values = Some v" "\<bar>v - 0.5\<bar> > 0.1"
    and "\<not> Date_now env - lastPlaybackCommandTime s < 2500"
  shows "\<exists>segs. handleSkipDeviceUpdate env ''skip'' values s =
           (Inr (), s\<lparr>trace := trace s @ concat segs
                          @ [VirtualDeviceUpdateState ''Speaker'' ''skip'' (Some 0.5)],
                       lastPlaybackCommandTime := Date_now env\<rparr>)
         \<and> length segs = length YAMAHA_CONFIG_speakers \<and> list_all (run_ok 3) segs"
proof -
  let ?loop = "forEach (playbackControl env (v - 0.5)) YAMAHA_CONFIG_speakers"
  from forEach_runs [where f = "playbackControl env (v - 0.5)" and Q = "run_ok 3", OF playbackControl_runs]
  obtain evs where loop: "snd (?loop s) = s\<lparr>trace := trace s @ evs\<rparr>" "fst (?loop s) = Inr ()"
    and "\<exists>segs. evs = concat segs \<and> length segs = length YAMAHA_CONFIG_speakers
           \<and> list_all (run_ok 3) segs"
    unfolding runs_def by blast
  then obtain segs where segs: "evs = concat segs" "length segs = length YAMAHA_CONFIG_speakers"
    "list_all (run_ok 3) segs" by blast
  from loop have "?loop s = (Inr (), s\<lparr>trace := trace s @ evs\<rparr>)"
    by (cases "?loop s") simp
  with assms segs show ?thesis
    by (intro exI [of _ segs])
       (simp add: handleSkipDeviceUpdate_def Let_def await_def seq_def read_def emit_def
          resetSkipDevice_def PLAYBACK_COOLDOWN_MS_def)
qed

lemma skip_blocked:
  assumes "volume values = Some v" "\<bar>v - 0.5\<bar> > 0.1"
    and "Date_now env - lastPlaybackCommandTime s < 2500"
  shows "handleSkipDeviceUpdate env ''skip'' values s =
           (Inr (), s\<lparr>trace := trace s @
              [ConsoleLog (hourglass @ '' Playback command ignored - cooldown active (''
                 @ string_of_int (remainingCooldown (Date_now env - lastPlaybackCommandTime s))
                 @ ''s remaining)''),
               VirtualDeviceUpdateState ''Speaker'' ''skip'' (Some 0.5)]\<rparr>)"
  using assms
  by (simp add: handleSkipDeviceUpdate_def Let_def await_def seq_def read_def emit_def
      console_log_def resetSkipDevice_def PLAYBACK_COOLDOWN_MS_def)

lemma skip_small:
  assumes "volume values = None \<or> (\<exists>v. volume values = Some v \<and> \<not> \<bar>v - 0.5\<bar> > 0.1)"
  shows "handleSkipDeviceUpdate env ''skip'' values s =
           (Inr (), s\<lparr>trace := trace s @ [VirtualDeviceUpdateState ''Speaker'' ''skip'' (Some 0.5)]\<rparr>)"
  using assms
  by (auto simp: handleSkipDeviceUpdate_def Let_def emit_def resetSkipDevice_def)

lemma skip_other:
  "d \<noteq> ''skip'' \<Longrightarrow> handleSkipDeviceUpdate env d values s = (Inr (), s)"
  by (simp add: handleSkipDeviceUpdate_def return_js_def)

lemma speaker_update_run:
  "fst (handleYamahaSpeakerUpdate env d values s) = Inr () \<and>
   (\<exists>evs cv. snd (handleYamahaSpeakerUpdate env d values s)
               = s\<lparr>trace := trace s @ evs, currentVolume := cv\<rparr> \<and> run_ok 2 evs)"
proof (cases "volume values")
  case None
  then show ?thesis
    by (auto simp: handleYamahaSpeakerUpdate_def return_js_def run_ok_def requests_def
        intro!: exI [of _ "[]"] exI [of _ "currentVolume s"])
next
  case (Some v)
  show ?thesis
  proof (cases "Date_now env - lastPlaybackCommandTime s < 2500")
    case True
    with Some show ?thesis
      by (auto simp: handleYamahaSpeakerUpdate_def Let_def await_def read_def console_log_def
          emit_def PLAYBACK_COOLDOWN_MS_def run_ok_def requests_def
          intro!: exI [of _ "currentVolume s"])
  next
    case False
    let ?set = "setYamahaVolume env d (Num \<lfloor>v * 100 + 1 / 2\<rfloor>)"
    from setvol_runs obtain evs where run: "snd (?set s) = s\<lparr>trace := trace s @ evs\<rparr>"
      and ok: "run_ok 2 evs" and err: "\<forall>e. fst (?set s) = Inl e \<longrightarrow> \<not> failed_error e"
      unfolding runs_def by blast
    show ?thesis
    proof (cases "fst (?set s)")
      case (Inl e)
      with run have "?set s = (Inl e, s\<lparr>trace := trace s @ evs\<rparr>)"
        by (cases "?set s") simp
      with Some False ok err Inl show ?thesis
        by (auto simp: handleYamahaSpeakerUpdate_def Let_def await_def read_def try_catch_def
            console_error_def emit_def PLAYBACK_COOLDOWN_MS_def run_ok_def requests_def
            logged_final_append
            intro!: exI [of _ "currentVolume s"] exI [of _ "evs @ [ConsoleError m (Some e)]" for m])
    next
      case (Inr resp)
      with run have "?set s = (Inr resp, s\<lparr>trace := trace s @ evs\<rparr>)"
        by (cases "?set s") simp
      with Some False ok show ?thesis
        by (auto simp: handleYamahaSpeakerUpdate_def Let_def await_def read_def try_catch_def
            PLAYBACK_COOLDOWN_MS_def
            intro!: exI [of _ evs] exI [of _ "\<lfloor>v * 100 + 1 / 2\<rfloor>"])
    qed
  qed
qed

section \<open>The claims about the handlers\<close>

lemma new_events_upd [simp]: "new_events s (s\<lparr>trace := trace s @ evs\<rparr>) = evs"
  by (simp add: new_events_def)

lemma new_events_upd2 [simp]:
  "new_events s (s\<lparr>trace := trace s @ evs, currentVolume := cv\<rparr>) = evs"
  "new_events s (s\<lparr>trace := trace s @ evs, lastPlaybackCommandTime := t\<rparr>) = evs"
  "new_events s s = []"
  by (simp_all add: new_events_def)

lemma up_blocked:
  assumes "Date_now env - lastPlaybackCommandTime s < 2500"
  shows "handleDeviceVolumeUp env deviceId s =
      (Inr (), s\<lparr>trace := trace s @
         [ConsoleLog (hourglass @ '' Volume up command ignored - playback cooldown active (''
            @ string_of_int (remainingCooldown (Date_now env - lastPlaybackCommandTime s))
            @ ''s remaining)'')]\<rparr>)"
  using assms
  by (simp add: handleDeviceVolumeUp_def Let_def await_def read_def console_log_def emit_def
      PLAYBACK_COOLDOWN_MS_def)

lemma down_blocked:
  assumes "Date_now env - lastPlaybackCommandTime s < 2500"
  shows "handleDeviceVolumeDown env deviceId s =
      (Inr (), s\<lparr>trace := trace s @
         [ConsoleLog (hourglass @ '' Volume down command ignored - playback cooldown active (''
            @ string_of_int (remainingCooldown (Date_now env - lastPlaybackCommandTime s))
            @ ''s remaining)'')]\<rparr>)"
  using assms
  by (simp add: handleDeviceVolumeDown_def Let_def await_def read_def console_log_def emit_def
      PLAYBACK_COOLDOWN_MS_def)

lemma twist_blocked:
  assumes "Date_now env - lastPlaybackCommandTime s < 2500" "volume vals \<noteq> None"
  shows "handleYamahaSpeakerUpdate env deviceId vals s =
      (Inr (), s\<lparr>trace := trace s @
         [ConsoleLog (hourglass @ '' Volume change ignored - playback cooldown active (''
            @ string_of_int (remainingCooldown (Date_now env - lastPlaybackCommandTime s))
            @ ''s remaining)'')]\<rparr>)"
  using assms
  by (auto simp: handleYamahaSpeakerUpdate_def Let_def await_def read_def console_log_def
      emit_def PLAYBACK_COOLDOWN_MS_def)

lemma virtualDeviceUpdate_blocked:
  assumes "Date_now env - lastPlaybackCommandTime s < 2500"
  shows "fst (virtualDeviceUpdate env md vals s) = Inr () \<and>
         requests (new_events s (snd (virtualDeviceUpdate env md vals s))) = []"
proof (cases "dimmableType md = ''Speaker''")
  case False
  then show ?thesis by (simp add: virtualDeviceUpdate_def return_js_def requests_def)
next
  case speaker: True
  show ?thesis
  proof (cases "virtualDeviceId md = ''skip''")
    case True
    show ?thesis
    proof (cases "\<exists>v. volume vals = Some v \<and> \<bar>v - 0.5\<bar> > 0.1")
      case True
      then obtain v where "volume vals = Some v" "\<bar>v - 0.5\<bar> > 0.1" by blast
      from skip_blocked [OF this assms] speaker \<open>virtualDeviceId md = ''skip''\<close>
      show ?thesis by (simp add: virtualDeviceUpdate_def requests_def)
    next
      case False
      then have "volume vals = None \<or> (\<exists>v. volume vals = Some v \<and> \<not> \<bar>v - 0.5\<bar> > 0.1)"
        by (cases "volume vals") auto
      from skip_small [OF this, of env s] speaker \<open>virtualDeviceId md = ''skip''\<close>
      show ?thesis by (simp add: virtualDeviceUpdate_def requests_def)
    qed
  next
    case False
    show ?thesis
    proof (cases "volume vals")
      case None
      with speaker False show ?thesis
        by (simp add: virtualDeviceUpdate_def handleYamahaSpeakerUpdate_def return_js_def
            requests_def)
    next
      case (Some v)
      with twist_blocked [OF assms, of vals "virtualDeviceId md"] speaker False
      show ?thesis by (auto simp: virtualDeviceUpdate_def requests_def)
    qed
  qed
qed

lemma actionMessage_blocked:
  assumes "Date_now env - lastPlaybackCommandTime s < 2500"
    and "join '' '' (drop 1 (split_space (toLowerCase message))) \<in> {''volume up'', ''volume down''}"
  shows "fst (actionMessage env message s) = Inr () \<and>
         requests (new_events s (snd (actionMessage env message s))) = []"
proof (cases "length (split_space (toLowerCase message)) \<ge> 2")
  case False
  then show ?thesis
    by (simp add: actionMessage_def Let_def seq_def await_def console_log_def emit_def
        requests_def new_events_def)
next
  case long: True
  show ?thesis
  proof (cases "find_speaker (split_space (toLowerCase message) ! 0)")
    case None
    with long show ?thesis
      by (simp add: actionMessage_def Let_def seq_def await_def console_log_def emit_def
          requests_def new_events_def)
  next
    case (Some speaker)
    with long assms show ?thesis
      by (auto simp: actionMessage_def Let_def seq_def await_def console_log_def emit_def
          requests_def new_events_def up_blocked down_blocked)
  qed
qed

text \<open>
  C1. One shared timestamp, \<open>lastPlaybackCommandTime\<close>, and the fixed threshold of
  2500 ms guard the volume-up action, the volume-down action, the volume update of a
  speaker twist and the playback command of the skip device: when the clock minus
  the timestamp is below 2500 ms, each of the four handlers returns without sending
  any HTTP request. The same holds where the events come in: an action message for
  volume up or volume down and any update of a virtual device send no request then.
\<close>

theorem cooldown_blocks_requests:
  assumes "Date_now env - lastPlaybackCommandTime s < 2500"
  shows "fst (handleDeviceVolumeUp env deviceId s) = Inr () \<and>
         requests (new_events s (snd (handleDeviceVolumeUp env deviceId s))) = [] \<and>
         fst (handleDeviceVolumeDown env deviceId s) = Inr () \<and>
         requests (new_events s (snd (handleDeviceVolumeDown env deviceId s))) = [] \<and>
         (volume vals \<noteq> None \<longrightarrow>
            fst (handleYamahaSpeakerUpdate env deviceId vals s) = Inr () \<and>
            requests (new_events s (snd (handleYamahaSpeakerUpdate env deviceId vals s))) = []) \<and>
         (volume vals = Some v \<and> \<bar>v - 0.5\<bar> > 0.1 \<longrightarrow>
            fst (handleSkipDeviceUpdate env ''skip'' vals s) = Inr () \<and>
            requests (new_events s (snd (handleSkipDeviceUpdate env ''skip'' vals s))) = []) \<and>
         (join '' '' (drop 1 (split_space (toLowerCase message)))
            \<in> {''volume up'', ''volume down''} \<longrightarrow>
            fst (actionMessage env message s) = Inr () \<and>
            requests (new_events s (snd (actionMessage env message s))) = []) \<and>
         fst (virtualDeviceUpdate env md vals s) = Inr () \<and>
         requests (new_events s (snd (virtualDeviceUpdate env md vals s))) = []"
  using up_blocked [OF assms, of deviceId] down_blocked [OF assms, of deviceId]
    twist_blocked [OF assms, of vals deviceId] skip_blocked [OF _ _ assms, of vals v]
    actionMessage_blocked [OF assms, of message] virtualDeviceUpdate_blocked [OF assms, of md vals]
  by (auto simp: requests_def)

theorem cooldown_blocks_requests_witness:
  "Date_now env_ok - lastPlaybackCommandTime state_cooling < 2500 \<and>
   requests (new_events state_cooling
      (snd (handleDeviceVolumeUp env_ok ''id1main'' state_cooling))) = [] \<and>
   requests (new_events state_cooling
      (snd (handleDeviceVolumeDown env_ok ''id1main'' state_cooling))) = [] \<and>
   requests (new_events state_cooling
      (snd (handleYamahaSpeakerUpdate env_ok ''id1main'' \<lparr>volume = Some 0.9\<rparr> state_cooling))) = [] \<and>
   requests (new_events state_cooling
      (snd (handleSkipDeviceUpdate env_ok ''skip'' \<lparr>volume = Some 0.9\<rparr> state_cooling))) = []"
proof -
  have cooling: "Date_now env_ok - lastPlaybackCommandTime state_cooling < 2500"
    by (simp add: env_ok_def state_cooling_def)
  have twist: "volume \<lparr>volume = Some 0.9\<rparr> = Some 0.9 \<and> \<bar>(0.9::real) - 0.5\<bar> > 0.1"
    by simp
  from cooldown_blocks_requests [OF cooling, where deviceId = "''id1main''"
      and vals = "\<lparr>volume = Some 0.9\<rparr>" and v = "0.9"]
    cooling twist
  show ?thesis by simp
qed

text \<open>
  C7. The speaker is looked up by its identifier in the static table. When the
  device-id token of an action message is the id of no configured speaker, the
  handler logs \<open>Unknown device\<close> and returns: no HTTP request is sent and no
  variable changes (the state differs by the two log lines only).
\<close>

theorem unknown_device_ignored:
  assumes "length (split_space (toLowerCase message)) \<ge> 2"
    and "\<forall>sp \<in> set YAMAHA_CONFIG_speakers. id_of sp \<noteq> split_space (toLowerCase message) ! 0"
  shows "actionMessage env message s =
           (Inr (), s\<lparr>trace := trace s @
              [ConsoleLog (''Received action message: '' @ message),
               ConsoleLog (''Unknown device: '' @ split_space (toLowerCase message) ! 0)]\<rparr>)"
proof -
  from assms(2) have "find_speaker (split_space (toLowerCase message) ! 0) = None"
    by (auto simp: find_speaker_def find_None_iff)
  with assms(1) show ?thesis
    by (simp add: actionMessage_def Let_def seq_def await_def console_log_def emit_def)
qed

theorem unknown_device_ignored_witness:
  "trace (snd (actionMessage env_ok ''kitchen mute'' state0)) =
     [ConsoleLog ''Received action message: kitchen mute'', ConsoleLog ''Unknown device: kitchen'']
   \<and> lastPlaybackCommandTime (snd (actionMessage env_ok ''kitchen mute'' state0)) = 0"
proof -
  have parts: "split_space (toLowerCase ''kitchen mute'') = [''kitchen'', ''mute'']"
    by code_simp
  show ?thesis
    using unknown_device_ignored [where message = "''kitchen mute''" and env = env_ok and s = state0]
    by (simp add: parts YAMAHA_CONFIG_speakers_def state0_def)
qed

section \<open>The requests that are built\<close>

lemma unreserved_hex_digit: "k < 16 \<Longrightarrow> unreserved (hex_digit k)"
proof -
  assume "k < 16"
  then have "k \<in> {0, 1, 2, 3, 4, 5, 6, 7, 8, 9, 10, 11, 12, 13, 14, 15}" by simp arith
  then show ?thesis
    by (auto simp: hex_digit_def unreserved_def)
qed

lemma encode_char_chars: "c' \<in> set (encode_char c) \<Longrightarrow> unreserved c' \<or> c' = CHR ''%''"
proof -
  have "(of_char c :: nat) < 256" by simp
  then have "(of_char c :: nat) div 16 < 16" by arith
  moreover have "(of_char c :: nat) mod 16 < 16" by simp
  moreover assume "c' \<in> set (encode_char c)"
  ultimately show ?thesis
    by (auto simp: encode_char_def Let_def unreserved_hex_digit split: if_splits)
qed

lemma encodeURIComponent_chars:
  "c \<in> set (encodeURIComponent x) \<Longrightarrow> unreserved c \<or> c = CHR ''%''"
  by (auto simp: encodeURIComponent_def dest: encode_char_chars)

text \<open>
  C5. Every request built by \<open>sendYamahaRequest\<close> is an HTTP GET, and it is the
  request that is sent. The URL is \<open>http://\<close>, the address and the endpoint,
  followed by a query string that is made of the keys \<open>volume\<close>, \<open>power\<close>,
  \<open>mute\<close>, \<open>enable\<close> and \<open>playback\<close> of \<open>data\<close> only (any other key is
  ignored), each value URI-encoded (so that no \<open>?\<close>, \<open>&\<close> or \<open>=\<close> is left in
  it), joined with \<open>&\<close> behind a \<open>?\<close> that is there only when a key is present;
  with \<open>null\<close> for \<open>data\<close> there is no query string.
\<close>

theorem request_is_get_with_query:
  "http_method (requestOptions ip endpoint dat) = ''GET'' \<and>
   url (requestOptions ip endpoint None) = ''http://'' @ ip @ endpoint \<and>
   url (requestOptions ip endpoint (Some d)) = ''http://'' @ ip @ endpoint @ query_string d \<and>
   ((\<forall>k \<in> set query_keys. d k = None) \<longrightarrow>
      url (requestOptions ip endpoint (Some d)) = ''http://'' @ ip @ endpoint) \<and>
   ((\<forall>k \<in> set query_keys. d k = d' k) \<longrightarrow>
      url (requestOptions ip endpoint (Some d)) = url (requestOptions ip endpoint (Some d'))) \<and>
   (\<forall>c \<in> set (encodeURIComponent x). c \<notin> set ''?&='') \<and>
   new_events s (snd (sendYamahaRequest env ip endpoint dat zone s))
     = [Http (requestOptions ip endpoint dat) (fst (sendYamahaRequest env ip endpoint dat zone s))]"
proof -
  have "\<forall>c \<in> set (encodeURIComponent x). c \<notin> set ''?&=''"
    by (auto dest!: encodeURIComponent_chars simp: unreserved_def)
  then show ?thesis
    by (auto simp: requestOptions_def sendYamahaRequest_url_def query_string_def query_keys_def
        param_def Let_def sendYamahaRequest_def new_events_def split: option.splits)
qed

theorem request_is_get_with_query_witness:
  "url (requestOptions ''10.0.0.2'' ''/v1/main/setVolume''
         (Some [''volume'' \<mapsto> QNum (Num 42), ''zone'' \<mapsto> QStr ''main'', ''power'' \<mapsto> QStr ''o n'']))
     = ''http://10.0.0.2/v1/main/setVolume?volume=42&power=o%20n'' \<and>
   url (requestOptions ''10.0.0.2'' ''/v1/main/getStatus'' (Some [''zone'' \<mapsto> QStr ''main'']))
     = ''http://10.0.0.2/v1/main/getStatus''"
proof -
  have q: "query_string [''volume'' \<mapsto> QNum (Num 42), ''zone'' \<mapsto> QStr ''main'', ''power'' \<mapsto> QStr ''o n'']
             = ''?volume=42&power=o%20n''"
    by (simp add: query_string_def query_keys_def encodeURIComponent_def encode_char_def
        unreserved_def hex_digit_def string_of_int_def string_of_nat.simps digit_char_def)
  have none: "\<forall>k \<in> set query_keys. [''zone'' \<mapsto> QStr ''main''] k = None"
    by (simp add: query_keys_def)
  have first: "url (requestOptions ''10.0.0.2'' ''/v1/main/setVolume''
         (Some [''volume'' \<mapsto> QNum (Num 42), ''zone'' \<mapsto> QStr ''main'', ''power'' \<mapsto> QStr ''o n'']))
     = ''http://10.0.0.2/v1/main/setVolume?volume=42&power=o%20n''"
    using request_is_get_with_query [where ip = "''10.0.0.2''"
        and endpoint = "''/v1/main/setVolume''"
        and d = "[''volume'' \<mapsto> QNum (Num 42), ''zone'' \<mapsto> QStr ''main'', ''power'' \<mapsto> QStr ''o n'']",
        THEN conjunct2, THEN conjunct2, THEN conjunct1]
    by (simp only: q) simp
  have second: "url (requestOptions ''10.0.0.2'' ''/v1/main/getStatus''
         (Some [''zone'' \<mapsto> QStr ''main''])) = ''http://10.0.0.2/v1/main/getStatus''"
    using request_is_get_with_query [where ip = "''10.0.0.2''"
        and endpoint = "''/v1/main/getStatus''" and d = "[''zone'' \<mapsto> QStr ''main'']",
        THEN conjunct2, THEN conjunct2, THEN conjunct2, THEN conjunct1, THEN mp, OF none]
    by simp
  from first second show ?thesis by (rule conjI)
qed

section \<open>Success, errors and the cooldown timestamp\<close>

lemma run_ok_concat:
  "list_all (run_ok n) segs \<Longrightarrow> \<not> list_ex else_branch (concat segs)"
  by (induction segs) (auto simp: run_ok_def)

lemma reset_event_simps [simp]: "\<not> is_http reset_event" "\<not> else_branch reset_event"
  by (simp_all add: reset_event_def)

lemma skip_run:
  "fst (handleSkipDeviceUpdate env d vals s) = Inr () \<and>
   (\<exists>segs rest.
      snd (handleSkipDeviceUpdate env d vals s)
        = s\<lparr>trace := trace s @ concat segs @ rest,
             lastPlaybackCommandTime :=
               (if d = ''skip'' \<and> (case volume vals of None \<Rightarrow> False | Some v \<Rightarrow> \<bar>v - 0.5\<bar> > 0.1)
                   \<and> \<not> Date_now env - lastPlaybackCommandTime s < 2500
                then Date_now env else lastPlaybackCommandTime s)\<rparr>
      \<and> length segs \<le> length YAMAHA_CONFIG_speakers \<and> list_all (run_ok 3) segs
      \<and> \<not> list_ex is_http rest \<and> \<not> list_ex else_branch rest
      \<and> (d = ''skip'' \<longrightarrow> rest \<noteq> [] \<and> last rest = reset_event))"
proof (cases "d = ''skip''")
  case False
  then show ?thesis
    by (auto simp: skip_other intro!: exI [of _ "[]"])
next
  case skip: True
  show ?thesis
  proof (cases "volume vals")
    case None
    with skip show ?thesis
      using skip_small [of vals env s]
      by (auto simp: reset_event_def intro!: exI [of _ "[]"] exI [of _ "[reset_event]"])
  next
    case (Some v)
    show ?thesis
    proof (cases "\<bar>v - 0.5\<bar> > 0.1")
      case False
      with skip Some show ?thesis
        using skip_small [of vals env s]
        by (auto simp: reset_event_def intro!: exI [of _ "[]"] exI [of _ "[reset_event]"])
    next
      case move: True
      show ?thesis
      proof (cases "Date_now env - lastPlaybackCommandTime s < 2500")
        case True
        with skip Some move show ?thesis
          using skip_blocked [of vals v env s]
          by (auto simp: reset_event_def intro!: exI [of _ "[]"]
              exI [of _ "[ConsoleLog m, reset_event]" for m])
      next
        case False
        from skip_playback [OF Some move False] obtain segs where
          "handleSkipDeviceUpdate env ''skip'' vals s =
             (Inr (), s\<lparr>trace := trace s @ concat segs @ [reset_event],
                         lastPlaybackCommandTime := Date_now env\<rparr>)"
          "length segs = length YAMAHA_CONFIG_speakers" "list_all (run_ok 3) segs"
          unfolding reset_event_def by blast
        with skip Some move False show ?thesis
          by (auto intro!: exI [of _ segs] exI [of _ "[reset_event]"])
      qed
    qed
  qed
qed

text \<open>
  C8. Whenever \<open>sendYamahaRequest\<close> resolves, the value has \<open>success = true\<close>,
  whatever the HTTP status code was. So the \<open>else\<close> branches of the tests of
  \<open>response.success\<close> are never taken: no run of \<open>setYamahaVolume\<close>,
  \<open>setYamahaPower\<close>, \<open>setYamahaMute\<close> or of a handler logs the one-argument
  \<open>Failed to ...\<close> error of such a branch, and none throws (or logs as a caught
  error) an \<open>Error('Failed to ...')\<close>.
\<close>

theorem success_always_true:
  "(fst (sendYamahaRequest env ip endpoint dat zone s) = Inr resp \<longrightarrow> success resp) \<and>
   \<not> list_ex else_branch (new_events s (snd (setYamahaVolume env d vol s))) \<and>
   (fst (setYamahaVolume env d vol s) = Inl e \<longrightarrow> \<not> failed_error e) \<and>
   \<not> list_ex else_branch (new_events s (snd (setYamahaPower env d b s))) \<and>
   (fst (setYamahaPower env d b s) = Inl e \<longrightarrow> \<not> failed_error e) \<and>
   \<not> list_ex else_branch (new_events s (snd (setYamahaMute env d b s))) \<and>
   (fst (setYamahaMute env d b s) = Inl e \<longrightarrow> \<not> failed_error e) \<and>
   \<not> list_ex else_branch (new_events s (snd (handleDeviceVolumeUp env d s))) \<and>
   \<not> list_ex else_branch (new_events s (snd (handleDeviceVolumeDown env d s))) \<and>
   \<not> list_ex else_branch (new_events s (snd (handleDeviceMuteToggle env d s))) \<and>
   \<not> list_ex else_branch (new_events s (snd (handleDevicePowerToggle env d s))) \<and>
   \<not> list_ex else_branch (new_events s (snd (handleDevicePowerOn env d s))) \<and>
   \<not> list_ex else_branch (new_events s (snd (handleDevicePowerOff env d s))) \<and>
   \<not> list_ex else_branch (new_events s (snd (handleYamahaSpeakerUpdate env d vals s))) \<and>
   \<not> list_ex else_branch (new_events s (snd (handleSkipDeviceUpdate env d vals s)))"
proof -
  have send: "fst (sendYamahaRequest env ip endpoint dat zone s) = Inr resp \<longrightarrow> success resp"
    by (auto simp: sendYamahaRequest_def Let_def dest: settle_success)
  have twist: "\<not> list_ex else_branch (new_events s (snd (handleYamahaSpeakerUpdate env d vals s)))"
    using speaker_update_run [of env d vals s] by (auto simp: run_ok_def)
  have skip: "\<not> list_ex else_branch (new_events s (snd (handleSkipDeviceUpdate env d vals s)))"
    using skip_run [of env d vals s] by (auto dest: run_ok_concat)
  show ?thesis
    using send twist skip
      runs_new_events(1) [OF setvol_runs [of env d vol], of s]
      runs_new_events(1) [OF setpower_runs [of env d b], of s]
      runs_new_events(1) [OF setmute_runs [of env d b], of s]
      runs_new_events(1) [OF up_runs [of env d], of s]
      runs_new_events(1) [OF down_runs [of env d], of s]
      runs_new_events(1) [OF mute_runs [of env d], of s]
      runs_new_events(1) [OF power_runs [of env d], of s]
      runs_new_events(1) [OF on_runs [of env d], of s]
      runs_new_events(1) [OF off_runs [of env d], of s]
    by (simp add: run_ok_def)
qed

theorem success_always_true_witness:
  "fst (sendYamahaRequest env_error_status ''10.0.0.2'' ''/x'' None ''main'' state0)
     = Inr \<lparr>success = True, data_status = 500, data_body = ''Internal Server Error'',
            data_headers = [], data_statusMessage = ''Internal Server Error''\<rparr> \<and>
   success \<lparr>success = True, data_status = 500, data_body = ''Internal Server Error'',
            data_headers = [], data_statusMessage = ''Internal Server Error''\<rparr> \<and>
   \<not> list_ex else_branch
        (new_events state0 (snd (handleDevicePowerOn env_error_status ''id1main'' state0))) \<and>
   else_branch (ConsoleError (cross_mark @ '' Failed to turn on Name Receiver 1 Main Zone'') None)"
proof -
  have resolved: "fst (sendYamahaRequest env_error_status ''10.0.0.2'' ''/x'' None ''main'' state0)
     = Inr \<lparr>success = True, data_status = 500, data_body = ''Internal Server Error'',
            data_headers = [], data_statusMessage = ''Internal Server Error''\<rparr>"
    by (simp add: sendYamahaRequest_def settle_def env_error_status_def error_result_def
        REQUEST_TIMEOUT_MS_def Let_def)
  have recognised:
    "else_branch (ConsoleError (cross_mark @ '' Failed to turn on Name Receiver 1 Main Zone'') None)"
    by (simp add: cross_mark_def)
  note all = success_always_true [where env = env_error_status and s = state0
      and ip = "''10.0.0.2''" and endpoint = "''/x''" and dat = None and zone = "''main''"
      and d = "''id1main''"]
  from all [THEN conjunct1, THEN mp, OF resolved] resolved recognised
    all [THEN conjunct2, THEN conjunct2, THEN conjunct2, THEN conjunct2, THEN conjunct2,
         THEN conjunct2, THEN conjunct2, THEN conjunct2, THEN conjunct2, THEN conjunct2,
         THEN conjunct2, THEN conjunct1]
  show ?thesis by simp
qed

text \<open>
  C9. \<open>lastPlaybackCommandTime\<close> is written by the skip-device handler only, and
  only when the device is \<open>skip\<close>, the twist moved by more than 0.1 from the centre
  and the cooldown is not active; then it becomes the time read at the start of the
  handler. The volume-up, volume-down and speaker-twist handlers (and the other
  action handlers) leave it as it is, so a blocked command does not extend the
  cooldown.
\<close>

theorem timestamp_written_by_skip_only:
  "lastPlaybackCommandTime (snd (handleDeviceVolumeUp env d s)) = lastPlaybackCommandTime s \<and>
   lastPlaybackCommandTime (snd (handleDeviceVolumeDown env d s)) = lastPlaybackCommandTime s \<and>
   lastPlaybackCommandTime (snd (handleYamahaSpeakerUpdate env d vals s))
     = lastPlaybackCommandTime s \<and>
   lastPlaybackCommandTime (snd (handleDeviceMuteToggle env d s)) = lastPlaybackCommandTime s \<and>
   lastPlaybackCommandTime (snd (handleDevicePowerToggle env d s)) = lastPlaybackCommandTime s \<and>
   lastPlaybackCommandTime (snd (handleDevicePowerOn env d s)) = lastPlaybackCommandTime s \<and>
   lastPlaybackCommandTime (snd (handleDevicePowerOff env d s)) = lastPlaybackCommandTime s \<and>
   lastPlaybackCommandTime (snd (handleSkipDeviceUpdate env d vals s))
     = (if d = ''skip'' \<and> (case volume vals of None \<Rightarrow> False | Some v \<Rightarrow> \<bar>v - 0.5\<bar> > 0.1)
           \<and> \<not> Date_now env - lastPlaybackCommandTime s < 2500
        then Date_now env else lastPlaybackCommandTime s)"
proof -
  have kept: "lastPlaybackCommandTime (snd (m s)) = lastPlaybackCommandTime s" if "runs m P"
    for m :: "unit js" and P
    using runs_new_events(2) [OF that, of s]
    by (metis state.select_convs(1) state.surjective state.update_convs(5))
  have twist: "lastPlaybackCommandTime (snd (handleYamahaSpeakerUpdate env d vals s))
                 = lastPlaybackCommandTime s"
    using speaker_update_run [of env d vals s] by auto
  have skip: "lastPlaybackCommandTime (snd (handleSkipDeviceUpdate env d vals s))
     = (if d = ''skip'' \<and> (case volume vals of None \<Rightarrow> False | Some v \<Rightarrow> \<bar>v - 0.5\<bar> > 0.1)
           \<and> \<not> Date_now env - lastPlaybackCommandTime s < 2500
        then Date_now env else lastPlaybackCommandTime s)"
    using skip_run [of env d vals s] by auto
  show ?thesis
    using twist skip kept [OF up_runs] kept [OF down_runs] kept [OF mute_runs]
      kept [OF power_runs] kept [OF on_runs] kept [OF off_runs]
    by simp
qed

theorem timestamp_written_by_skip_only_witness:
  "lastPlaybackCommandTime
     (snd (handleSkipDeviceUpdate env_ok ''skip'' \<lparr>volume = Some 0.9\<rparr> state0)) = 10000 \<and>
   lastPlaybackCommandTime
     (snd (handleSkipDeviceUpdate env_ok ''skip'' \<lparr>volume = Some 0.9\<rparr> state_cooling)) = 9000 \<and>
   lastPlaybackCommandTime
     (snd (handleSkipDeviceUpdate env_ok ''skip'' \<lparr>volume = Some 0.55\<rparr> state0)) = 0 \<and>
   lastPlaybackCommandTime (snd (handleDeviceVolumeUp env_ok ''id1main'' state_cooling)) = 9000"
proof -
  have clock: "Date_now env_ok = 10000" "lastPlaybackCommandTime state0 = 0"
    "lastPlaybackCommandTime state_cooling = 9000"
    by (simp_all add: env_ok_def state0_def state_cooling_def)
  from timestamp_written_by_skip_only [where env = env_ok and d = "''skip''"
        and vals = "\<lparr>volume = Some 0.9\<rparr>" and s = state0]
    timestamp_written_by_skip_only [where env = env_ok and d = "''skip''"
        and vals = "\<lparr>volume = Some 0.9\<rparr>" and s = state_cooling]
    timestamp_written_by_skip_only [where env = env_ok and d = "''skip''"
        and vals = "\<lparr>volume = Some 0.55\<rparr>" and s = state0]
    timestamp_written_by_skip_only [where env = env_ok and d = "''id1main''"
        and s = state_cooling]
  show ?thesis by (simp add: clock)
qed

text \<open>
  C10. With the device id \<open>skip\<close> the skip-device handler always ends by putting the
  virtual skip device back to the centre (volume 0.5): the last thing it does, on the
  blocked path, on the playback path and on the small-movement path, is that call of
  \<open>virtualDeviceUpdateState\<close>. With any other device id it returns and changes
  nothing.
\<close>

theorem skip_device_reset:
  "(d = ''skip'' \<longrightarrow>
      fst (handleSkipDeviceUpdate env d vals s) = Inr () \<and>
      new_events s (snd (handleSkipDeviceUpdate env d vals s)) \<noteq> [] \<and>
      last (new_events s (snd (handleSkipDeviceUpdate env d vals s)))
        = VirtualDeviceUpdateState ''Speaker'' ''skip'' (Some 0.5)) \<and>
   (d \<noteq> ''skip'' \<longrightarrow> handleSkipDeviceUpdate env d vals s = (Inr (), s))"
proof -
  from skip_run [of env d vals s] obtain segs rest where
    run: "snd (handleSkipDeviceUpdate env d vals s)
        = s\<lparr>trace := trace s @ concat segs @ rest,
             lastPlaybackCommandTime :=
               (if d = ''skip'' \<and> (case volume vals of None \<Rightarrow> False | Some v \<Rightarrow> \<bar>v - 0.5\<bar> > 0.1)
                   \<and> \<not> Date_now env - lastPlaybackCommandTime s < 2500
                then Date_now env else lastPlaybackCommandTime s)\<rparr>"
    and rest: "d = ''skip'' \<longrightarrow> rest \<noteq> [] \<and> last rest = reset_event"
    and ok: "fst (handleSkipDeviceUpdate env d vals s) = Inr ()"
    by blast
  have "new_events s (snd (handleSkipDeviceUpdate env d vals s)) = concat segs @ rest"
    unfolding run by (simp add: new_events_def)
  with rest ok show ?thesis
    by (auto simp: skip_other reset_event_def)
qed

theorem skip_device_reset_witness:
  "last (new_events state0
      (snd (handleSkipDeviceUpdate env_ok ''skip'' \<lparr>volume = Some 0.9\<rparr> state0)))
     = VirtualDeviceUpdateState ''Speaker'' ''skip'' (Some 0.5) \<and>
   last (new_events state_cooling
      (snd (handleSkipDeviceUpdate env_ok ''skip'' \<lparr>volume = Some 0.9\<rparr> state_cooling)))
     = VirtualDeviceUpdateState ''Speaker'' ''skip'' (Some 0.5) \<and>
   last (new_events state0
      (snd (handleSkipDeviceUpdate env_ok ''skip'' \<lparr>volume = Some 0.55\<rparr> state0)))
     = VirtualDeviceUpdateState ''Speaker'' ''skip'' (Some 0.5) \<and>
   handleSkipDeviceUpdate env_ok ''id1main'' \<lparr>volume = Some 0.9\<rparr> state0 = (Inr (), state0)"
  using skip_device_reset [where d = "''skip''" and env = env_ok
        and vals = "\<lparr>volume = Some 0.9\<rparr>" and s = state0]
    skip_device_reset [where d = "''skip''" and env = env_ok
        and vals = "\<lparr>volume = Some 0.9\<rparr>" and s = state_cooling]
    skip_device_reset [where d = "''skip''" and env = env_ok
        and vals = "\<lparr>volume = Some 0.55\<rparr>" and s = state0]
    skip_device_reset [where d = "''id1main''" and env = env_ok
        and vals = "\<lparr>volume = Some 0.9\<rparr>" and s = state0]
  by simp

subsection \<open>The skip handler, speaker by speaker\<close>

lemma requests_append: "requests (a @ b) = requests a @ requests b"
  by (simp add: requests_def)

lemma consume_append:
  "consume (a @ b) qs = (case consume a qs of None \<Rightarrow> None | Some qs' \<Rightarrow> consume b qs')"
  by (induction a qs rule: consume.induct) auto

lemma runs_endpoints_of_zone:
  "(\<And>ep. YAMAHA_CONFIG_endpoints (zone_of sp) = Some ep \<Longrightarrow> P [] (Inr ep)) \<Longrightarrow>
   (YAMAHA_CONFIG_endpoints (zone_of sp) = None \<Longrightarrow> P [] (Inl TypeError)) \<Longrightarrow>
   runs (endpoints_of sp) P"
  by (auto simp: endpoints_of_def runs_return runs_throw split: option.splits)

lemmas runs_intros_zone = runs_return runs_throw runs_emit runs_console_log runs_console_error
  runs_read runs_await runs_seq runs_try_catch runs_send runs_endpoints_of_zone runs_parse_body

lemma status_shape_runs:
  "runs (getPlaybackStatus env sp)
     (\<lambda>evs r. \<exists>x. r = Inr x \<and> (\<forall>p. consume evs (speaker_requests sp p) \<noteq> None) \<and>
        (x = ''play'' \<or> x = ''pause'' \<longrightarrow>
           (\<forall>p. consume evs (speaker_requests sp p) = Some [setPlayback_request sp p])))"
  unfolding getPlaybackStatus_def Let_def
  by (auto intro!: runs_intros_zone
      simp: speaker_requests_def status_request_def getPlayInfo_request_def
      split: run_splits)

lemma pause_shape_runs:
  "runs (pausePlayback env sp)
     (\<lambda>evs r. consume evs [setPlayback_request sp ''pause''] = Some [])"
  unfolding pausePlayback_def
  by (auto intro!: runs_intros simp: setPlayback_request_def split: run_splits)

lemma resume_shape_runs:
  "runs (resumePlayback env sp)
     (\<lambda>evs r. consume evs [setPlayback_request sp ''play''] = Some [])"
  unfolding resumePlayback_def
  by (auto intro!: runs_intros simp: setPlayback_request_def split: run_splits)

lemma next_shape_runs:
  "runs (skipToNextTrack env sp)
     (\<lambda>evs r. consume evs [setPlayback_request sp ''next''] = Some [])"
  unfolding skipToNextTrack_def
  by (auto intro!: runs_intros simp: setPlayback_request_def split: run_splits)

lemma playbackControl_shape_runs:
  "runs (playbackControl env c sp)
     (\<lambda>evs r. \<exists>p \<in> {''pause'', ''play'', ''next''}. consume evs (speaker_requests sp p) \<noteq> None)"
  unfolding playbackControl_def
  by (auto intro!: runs_intros runs_conseq [OF status_shape_runs]
        runs_conseq [OF pause_shape_runs] runs_conseq [OF resume_shape_runs]
        runs_conseq [OF next_shape_runs]
      simp: consume_append
      split: run_splits)

lemma runs_conj: "runs m P \<Longrightarrow> runs m Q \<Longrightarrow> runs m (\<lambda>evs r. P evs r \<and> Q evs r)"
  unfolding runs_def
proof
  fix s
  assume P: "\<forall>s. \<exists>evs. snd (m s) = s\<lparr>trace := trace s @ evs\<rparr> \<and> P evs (fst (m s))"
    and Q: "\<forall>s. \<exists>evs. snd (m s) = s\<lparr>trace := trace s @ evs\<rparr> \<and> Q evs (fst (m s))"
  from P obtain evs where 1: "snd (m s) = s\<lparr>trace := trace s @ evs\<rparr>" "P evs (fst (m s))"
    by blast
  from Q obtain evs' where 2: "snd (m s) = s\<lparr>trace := trace s @ evs'\<rparr>" "Q evs' (fst (m s))"
    by blast
  from 1(1) 2(1) have "new_events s (s\<lparr>trace := trace s @ evs\<rparr>)
      = new_events s (s\<lparr>trace := trace s @ evs'\<rparr>)"
    by simp
  then have "evs = evs'" by simp
  with 1 2 show "\<exists>evs. snd (m s) = s\<lparr>trace := trace s @ evs\<rparr>
      \<and> P evs (fst (m s)) \<and> Q evs (fst (m s))"
    by blast
qed

lemma playbackControl_segment:
  "runs (playbackControl env c sp) (\<lambda>evs r. r = Inr () \<and> speaker_segment sp evs)"
  by (rule runs_conseq [OF runs_conj [OF playbackControl_runs playbackControl_shape_runs]])
     (simp add: speaker_segment_def run_ok_def)

lemma forEach_segments:
  assumes body: "\<And>x. runs (f x) (\<lambda>evs r. r = Inr () \<and> Q x evs)"
  shows "runs (forEach f xs)
           (\<lambda>evs r. r = Inr () \<and> (\<exists>segs. evs = concat segs \<and> list_all2 Q xs segs))"
proof (induction xs)
  case Nil
  show ?case by (simp add: runs_return)
next
  case (Cons x xs)
  let ?P = "\<lambda>evs r. r = Inr () \<and> (\<exists>segs. evs = concat segs \<and> list_all2 Q (x # xs) segs)"
  have "runs (f x) (\<lambda>evs r. case r of Inl e \<Rightarrow> ?P evs (Inl e)
                            | Inr u \<Rightarrow> runs (forEach f xs) (\<lambda>evs' r'. ?P (evs @ evs') r'))"
  proof (rule runs_conseq [OF body])
    fix evs r
    assume first: "r = Inr () \<and> Q x evs"
    have "runs (forEach f xs) (\<lambda>evs' r'. ?P (evs @ evs') r')"
    proof (rule runs_conseq [OF Cons.IH])
      fix evs' r'
      assume "r' = Inr () \<and> (\<exists>segs. evs' = concat segs \<and> list_all2 Q xs segs)"
      then obtain segs where "r' = Inr ()" "evs' = concat segs" "list_all2 Q xs segs"
        by blast
      with first show "?P (evs @ evs') r'"
        by (intro conjI exI [of _ "evs # segs"]) simp_all
    qed
    with first show "case r of Inl e \<Rightarrow> ?P evs (Inl e)
                     | Inr u \<Rightarrow> runs (forEach f xs) (\<lambda>evs' r'. ?P (evs @ evs') r')"
      by simp
  qed
  then have "runs (seq (f x) (forEach f xs)) ?P"
    by (rule runs_seq)
  then show ?case by simp
qed

lemma skip_playback_segments:
  assumes "volume vals = Some v" "\<bar>v - 0.5\<bar> > 0.1"
    and "\<not> Date_now env - lastPlaybackCommandTime s < 2500"
  shows "\<exists>segs. handleSkipDeviceUpdate env ''skip'' vals s =
           (Inr (), s\<lparr>trace := trace s @ concat segs @ [reset_event],
                       lastPlaybackCommandTime := Date_now env\<rparr>)
         \<and> list_all2 speaker_segment YAMAHA_CONFIG_speakers segs"
proof -
  let ?loop = "forEach (playbackControl env (v - 0.5)) YAMAHA_CONFIG_speakers"
  from forEach_segments [where f = "playbackControl env (v - 0.5)" and Q = speaker_segment,
      OF playbackControl_segment]
  obtain evs where loop: "snd (?loop s) = s\<lparr>trace := trace s @ evs\<rparr>" "fst (?loop s) = Inr ()"
    and "\<exists>segs. evs = concat segs \<and> list_all2 speaker_segment YAMAHA_CONFIG_speakers segs"
    unfolding runs_def by blast
  then obtain segs where segs: "evs = concat segs"
    "list_all2 speaker_segment YAMAHA_CONFIG_speakers segs" by blast
  from loop have "?loop s = (Inr (), s\<lparr>trace := trace s @ evs\<rparr>)"
    by (cases "?loop s") simp
  with assms segs show ?thesis
    by (intro exI [of _ segs])
       (simp add: handleSkipDeviceUpdate_def Let_def await_def seq_def read_def emit_def
          resetSkipDevice_def reset_event_def PLAYBACK_COOLDOWN_MS_def)
qed

lemma per_speaker_rest: "\<not> list_ex is_http rest \<Longrightarrow> logged_final_per_speaker rest"
  unfolding logged_final_per_speaker_def
  by (rule exI [of _ "[]"], rule exI [of _ rest]) simp

lemma per_speaker_segments:
  "list_all2 speaker_segment YAMAHA_CONFIG_speakers segs \<Longrightarrow> \<not> list_ex is_http rest
     \<Longrightarrow> logged_final_per_speaker (concat segs @ rest)"
  unfolding logged_final_per_speaker_def
  by (rule exI [of _ segs], rule exI [of _ rest]) simp

lemma skip_segments:
  "logged_final_per_speaker (new_events s (snd (handleSkipDeviceUpdate env d vals s)))"
proof (cases "d = ''skip''")
  case False
  then show ?thesis
    by (simp add: skip_other per_speaker_rest)
next
  case skip: True
  show ?thesis
  proof (cases "\<exists>v. volume vals = Some v \<and> \<bar>v - 0.5\<bar> > 0.1")
    case False
    then have "volume vals = None \<or> (\<exists>v. volume vals = Some v \<and> \<not> \<bar>v - 0.5\<bar> > 0.1)"
      by (cases "volume vals") auto
    from skip_small [OF this, of env s] skip show ?thesis
      by (simp add: per_speaker_rest)
  next
    case True
    then obtain v where move: "volume vals = Some v" "\<bar>v - 0.5\<bar> > 0.1" by blast
    show ?thesis
    proof (cases "Date_now env - lastPlaybackCommandTime s < 2500")
      case True
      from skip_blocked [OF move True] skip show ?thesis
        by (simp add: per_speaker_rest)
    next
      case False
      from skip_playback_segments [OF move False] obtain segs where
        "handleSkipDeviceUpdate env ''skip'' vals s =
           (Inr (), s\<lparr>trace := trace s @ concat segs @ [reset_event],
                       lastPlaybackCommandTime := Date_now env\<rparr>)"
        "list_all2 speaker_segment YAMAHA_CONFIG_speakers segs" by blast
      with skip show ?thesis
        by (simp add: per_speaker_segments)
    qed
  qed
qed

text \<open>
  A trace in which the status request of the first speaker is rejected, logged and
  then made again is not a trace of this kind: a retry would show.
\<close>

lemma status_requests_differ:
  "status_request (YAMAHA_CONFIG_speakers ! 0) \<noteq> status_request (YAMAHA_CONFIG_speakers ! 1)"
  by (simp add: status_request_def YAMAHA_CONFIG_speakers_def YAMAHA_CONFIG_endpoints_def
      requestOptions_def sendYamahaRequest_url_def)

lemma consume_first:
  "consume evs (q # qs) \<noteq> None \<Longrightarrow> requests evs = ev # rest \<Longrightarrow> \<exists>r. ev = Http q r"
  by (induction evs "q # qs" rule: consume.induct) (auto simp: requests_def split: if_splits)

lemma logged_final_rejected_last:
  "logged_final evs \<Longrightarrow> requests evs = Http q (Inl e) # x # xs \<Longrightarrow> False"
proof (induction evs rule: logged_final.induct)
  case (2 req e' rest)
  from 2(2) have "filter is_http rest = x # xs"
    by (simp add: requests_def)
  then have "x \<in> set (filter is_http rest)" by simp
  then have "list_ex is_http rest"
    by (auto simp: list_ex_iff)
  with 2(1) show ?case
    by (auto simp: list_ex_iff split: list.splits event.splits option.splits)
qed (auto simp: requests_def)

lemma no_requests: "\<not> list_ex is_http evs \<Longrightarrow> requests evs = []"
  by (simp add: requests_def list_ex_iff filter_empty_conv)

lemma retry_is_not_per_speaker:
  "\<not> logged_final_per_speaker
       [Http (status_request (YAMAHA_CONFIG_speakers ! 0)) (Inl e), ConsoleError m (Some e),
        Http (status_request (YAMAHA_CONFIG_speakers ! 0)) (Inl e), ConsoleError m (Some e),
        reset_event]"
proof
  let ?q = "status_request (YAMAHA_CONFIG_speakers ! 0)"
  let ?L = "[Http ?q (Inl e), ConsoleError m (Some e), Http ?q (Inl e), ConsoleError m (Some e),
             reset_event]"
  assume "logged_final_per_speaker ?L"
  then obtain segs rest where split: "?L = concat segs @ rest"
    and segs: "segs = [] \<or> list_all2 speaker_segment YAMAHA_CONFIG_speakers segs"
    and rest: "\<not> list_ex is_http rest"
    unfolding logged_final_per_speaker_def by blast
  from split rest have "segs \<noteq> []" by auto
  with segs have "list_all2 speaker_segment YAMAHA_CONFIG_speakers segs" by simp
  then obtain a b where ab: "segs = [a, b]"
    and a: "logged_final a"
    and b: "consume b (speaker_requests (YAMAHA_CONFIG_speakers ! 1) ''pause'') \<noteq> None
            \<or> consume b (speaker_requests (YAMAHA_CONFIG_speakers ! 1) ''play'') \<noteq> None
            \<or> consume b (speaker_requests (YAMAHA_CONFIG_speakers ! 1) ''next'') \<noteq> None"
    by (auto simp: YAMAHA_CONFIG_speakers_def list_all2_Cons1 speaker_segment_def)
  from split ab have "requests ?L = requests a @ requests b @ requests rest"
    by (simp add: requests_append)
  with no_requests [OF rest]
  have reqs: "requests a @ requests b = [Http ?q (Inl e), Http ?q (Inl e)]"
    by (simp add: requests_def reset_event_def)
  show False
  proof (cases "requests b")
    case Nil
    with reqs a show False by (auto dest: logged_final_rejected_last)
  next
    case (Cons ev rest')
    with reqs have "ev = Http ?q (Inl e)"
      by (auto simp: append_eq_Cons_conv Cons_eq_append_conv)
    moreover from b obtain p where
      "consume b (speaker_requests (YAMAHA_CONFIG_speakers ! 1) p) \<noteq> None" by blast
    then have "\<exists>r. ev = Http (status_request (YAMAHA_CONFIG_speakers ! 1)) r"
      using Cons consume_first [of b "status_request (YAMAHA_CONFIG_speakers ! 1)" _ ev rest']
      unfolding speaker_requests_def by blast
    ultimately show False
      using status_requests_differ by auto
  qed
qed

text \<open>
  C6. Errors are caught and logged for each request, and nothing is retried. Every
  top-level handler returns normally, whatever the requests do. In a run of one of
  the six action handlers and of the speaker-twist handler, a rejected request is
  followed at once by a \<open>console.error\<close> carrying the rejection, and by no further
  request. The skip-device handler works through the configured speakers in turn
  (the body of its loop is \<open>playbackControl\<close>): for each speaker it makes the
  requests of that speaker, each one at most once, and a rejected request is logged
  at once and is the last request for that speaker.
\<close>

theorem errors_caught_and_logged:
  "fst (handleDeviceVolumeUp env d s) = Inr () \<and>
   logged_final (new_events s (snd (handleDeviceVolumeUp env d s))) \<and>
   fst (handleDeviceVolumeDown env d s) = Inr () \<and>
   logged_final (new_events s (snd (handleDeviceVolumeDown env d s))) \<and>
   fst (handleDeviceMuteToggle env d s) = Inr () \<and>
   logged_final (new_events s (snd (handleDeviceMuteToggle env d s))) \<and>
   fst (handleDevicePowerToggle env d s) = Inr () \<and>
   logged_final (new_events s (snd (handleDevicePowerToggle env d s))) \<and>
   fst (handleDevicePowerOn env d s) = Inr () \<and>
   logged_final (new_events s (snd (handleDevicePowerOn env d s))) \<and>
   fst (handleDevicePowerOff env d s) = Inr () \<and>
   logged_final (new_events s (snd (handleDevicePowerOff env d s))) \<and>
   fst (handleYamahaSpeakerUpdate env d vals s) = Inr () \<and>
   logged_final (new_events s (snd (handleYamahaSpeakerUpdate env d vals s))) \<and>
   fst (playbackControl env c sp s) = Inr () \<and>
   speaker_segment sp (new_events s (snd (playbackControl env c sp s))) \<and>
   fst (handleSkipDeviceUpdate env d vals s) = Inr () \<and>
   logged_final_per_speaker (new_events s (snd (handleSkipDeviceUpdate env d vals s)))"
proof -
  have twist: "fst (handleYamahaSpeakerUpdate env d vals s) = Inr () \<and>
      logged_final (new_events s (snd (handleYamahaSpeakerUpdate env d vals s)))"
    using speaker_update_run [of env d vals s] by (auto simp: run_ok_def)
  have skip: "fst (handleSkipDeviceUpdate env d vals s) = Inr () \<and>
      logged_final_per_speaker (new_events s (snd (handleSkipDeviceUpdate env d vals s)))"
    using skip_run [of env d vals s] skip_segments [of s env d vals] by blast
  show ?thesis
    using twist skip
      runs_new_events(1) [OF up_runs [of env d], of s]
      runs_new_events(1) [OF down_runs [of env d], of s]
      runs_new_events(1) [OF mute_runs [of env d], of s]
      runs_new_events(1) [OF power_runs [of env d], of s]
      runs_new_events(1) [OF on_runs [of env d], of s]
      runs_new_events(1) [OF off_runs [of env d], of s]
      runs_new_events(1) [OF playbackControl_segment [of env c sp], of s]
    by (simp add: run_ok_def)
qed

lemmas eval_defs = await_def seq_def try_catch_def return_js_def throw_def emit_def console_log_def
  console_error_def read_def endpoints_of_def parse_body_def sendYamahaRequest_def settle_def
  find_speaker_def YAMAHA_CONFIG_speakers_def YAMAHA_CONFIG_endpoints_def
  PLAYBACK_COOLDOWN_MS_def REQUEST_TIMEOUT_MS_def Let_def new_events_def requests_def

theorem errors_caught_and_logged_witness:
  "list_ex is_rejected (new_events state0 (snd (handleDevicePowerOn env_refused ''id1main'' state0))) \<and>
   fst (handleDevicePowerOn env_refused ''id1main'' state0) = Inr () \<and>
   logged_final (new_events state0 (snd (handleDevicePowerOn env_refused ''id1main'' state0))) \<and>
   map url_of (requests (new_events state0
      (snd (handleSkipDeviceUpdate env_flaky ''skip'' \<lparr>volume = Some 0.9\<rparr> state0))))
     = [''http://RECEIVER1_IP_ADDRESS/YamahaExtendedControl/v1/main/getStatus'',
        ''http://RECEIVER1_IP_ADDRESS/YamahaExtendedControl/v1/netusb/getPlayInfo'',
        ''http://RECEIVER1_IP_ADDRESS/YamahaExtendedControl/v1/zone2/getStatus'',
        ''http://RECEIVER1_IP_ADDRESS/YamahaExtendedControl/v1/netusb/getPlayInfo'',
        ''http://RECEIVER1_IP_ADDRESS/YamahaExtendedControl/v1/netusb/setPlayback?playback=next''] \<and>
   map is_rejected (requests (new_events state0
      (snd (handleSkipDeviceUpdate env_flaky ''skip'' \<lparr>volume = Some 0.9\<rparr> state0))))
     = [False, True, False, False, False] \<and>
   fst (handleSkipDeviceUpdate env_flaky ''skip'' \<lparr>volume = Some 0.9\<rparr> state0) = Inr () \<and>
   logged_final_per_speaker
     (new_events state0 (snd (handleSkipDeviceUpdate env_flaky ''skip'' \<lparr>volume = Some 0.9\<rparr> state0)))"
proof -
  have rejected: "list_ex is_rejected
      (new_events state0 (snd (handleDevicePowerOn env_refused ''id1main'' state0)))"
    by (simp add: handleDevicePowerOn_def eval_defs env_refused_def state0_def)
  have run: "map url_of (requests (new_events state0
      (snd (handleSkipDeviceUpdate env_flaky ''skip'' \<lparr>volume = Some 0.9\<rparr> state0))))
     = [''http://RECEIVER1_IP_ADDRESS/YamahaExtendedControl/v1/main/getStatus'',
        ''http://RECEIVER1_IP_ADDRESS/YamahaExtendedControl/v1/netusb/getPlayInfo'',
        ''http://RECEIVER1_IP_ADDRESS/YamahaExtendedControl/v1/zone2/getStatus'',
        ''http://RECEIVER1_IP_ADDRESS/YamahaExtendedControl/v1/netusb/getPlayInfo'',
        ''http://RECEIVER1_IP_ADDRESS/YamahaExtendedControl/v1/netusb/setPlayback?playback=next''] \<and>
   map is_rejected (requests (new_events state0
      (snd (handleSkipDeviceUpdate env_flaky ''skip'' \<lparr>volume = Some 0.9\<rparr> state0))))
     = [False, True, False, False, False]"
    by (simp add: handleSkipDeviceUpdate_def playbackControl_def getPlaybackStatus_def
        pausePlayback_def resumePlayback_def skipToNextTrack_def resetSkipDevice_def
        eval_defs env_flaky_def state0_def ok_result_def status_body_def
        requestOptions_def sendYamahaRequest_url_def param_def encodeURIComponent_def
        encode_char_def unreserved_def)
  from errors_caught_and_logged [where env = env_refused and d = "''id1main''" and s = state0]
    errors_caught_and_logged [where env = env_flaky and d = "''skip''" and s = state0
      and vals = "\<lparr>volume = Some 0.9\<rparr>"] rejected run
  show ?thesis by simp
qed












section \<open>The dispatch of action messages\<close>

text \<open>
  C2, as the code has it. The handler of action messages splits the lower-cased
  message at the spaces. With fewer than two parts it dispatches nothing (it logs
  the expected format). With two parts or more, the first part is the device id and
  the rest, joined by spaces, is the action; when the device id is that of a
  configured speaker, the handler that the dispatch table gives for the action is
  called, exactly one of the six for \<open>volume up\<close>, \<open>volume down\<close>, \<open>mute\<close>,
  \<open>power\<close>, \<open>on\<close> and \<open>off\<close>, and any other action is only logged.
\<close>

theorem actionMessage_dispatch:
  "(length (split_space (toLowerCase message)) < 2 \<longrightarrow>
      actionMessage env message s =
        (Inr (), s\<lparr>trace := trace s @
           [ConsoleLog (''Received action message: '' @ message),
            ConsoleLog (''Invalid action message format. Expected: '' @ [CHR 0x22]
                        @ ''{device-id} {action}'' @ [CHR 0x22])]\<rparr>)) \<and>
   (length (split_space (toLowerCase message)) \<ge> 2 \<and>
    find_speaker (split_space (toLowerCase message) ! 0) \<noteq> None \<longrightarrow>
      actionMessage env message s =
        (case dispatch_table (join '' '' (drop 1 (split_space (toLowerCase message)))) of
           Some handler \<Rightarrow> handler env (split_space (toLowerCase message) ! 0)
         | None \<Rightarrow>
             console_log (''Unknown action for device '' @ split_space (toLowerCase message) ! 0
                          @ '': '' @ join '' '' (drop 1 (split_space (toLowerCase message)))))
          (s\<lparr>trace := trace s @ [ConsoleLog (''Received action message: '' @ message)]\<rparr>)) \<and>
   dispatch_table ''volume up'' = Some handleDeviceVolumeUp \<and>
   dispatch_table ''volume down'' = Some handleDeviceVolumeDown \<and>
   dispatch_table ''mute'' = Some handleDeviceMuteToggle \<and>
   dispatch_table ''power'' = Some handleDevicePowerToggle \<and>
   dispatch_table ''on'' = Some handleDevicePowerOn \<and>
   dispatch_table ''off'' = Some handleDevicePowerOff \<and>
   dom dispatch_table = {''volume up'', ''volume down'', ''mute'', ''power'', ''on'', ''off''}"
proof -
  have short: "length (split_space (toLowerCase message)) < 2 \<longrightarrow>
      actionMessage env message s =
        (Inr (), s\<lparr>trace := trace s @
           [ConsoleLog (''Received action message: '' @ message),
            ConsoleLog (''Invalid action message format. Expected: '' @ [CHR 0x22]
                        @ ''{device-id} {action}'' @ [CHR 0x22])]\<rparr>)"
    by (simp add: actionMessage_def Let_def seq_def await_def console_log_def emit_def)
  have known: "length (split_space (toLowerCase message)) \<ge> 2 \<and>
    find_speaker (split_space (toLowerCase message) ! 0) \<noteq> None \<longrightarrow>
      actionMessage env message s =
        (case dispatch_table (join '' '' (drop 1 (split_space (toLowerCase message)))) of
           Some handler \<Rightarrow> handler env (split_space (toLowerCase message) ! 0)
         | None \<Rightarrow>
             console_log (''Unknown action for device '' @ split_space (toLowerCase message) ! 0
                          @ '': '' @ join '' '' (drop 1 (split_space (toLowerCase message)))))
          (s\<lparr>trace := trace s @ [ConsoleLog (''Received action message: '' @ message)]\<rparr>)"
    by (auto simp: actionMessage_def Let_def seq_def await_def console_log_def emit_def
        dispatch_table_def)
  have table: "dispatch_table ''volume up'' = Some handleDeviceVolumeUp"
    "dispatch_table ''volume down'' = Some handleDeviceVolumeDown"
    "dispatch_table ''mute'' = Some handleDeviceMuteToggle"
    "dispatch_table ''power'' = Some handleDevicePowerToggle"
    "dispatch_table ''on'' = Some handleDevicePowerOn"
    "dispatch_table ''off'' = Some handleDevicePowerOff"
    by (simp_all add: dispatch_table_def)
  have "dom dispatch_table = {''volume up'', ''volume down'', ''mute'', ''power'', ''on'', ''off''}"
    unfolding dispatch_table_def dom_map_of_conv_image_fst by auto
  with short known table show ?thesis by blast
qed

theorem actionMessage_dispatch_witness:
  "actionMessage env_ok ''ID1Main Volume Up'' state_cooling =
     handleDeviceVolumeUp env_ok ''id1main''
       (state_cooling\<lparr>trace := trace state_cooling
          @ [ConsoleLog ''Received action message: ID1Main Volume Up'']\<rparr>) \<and>
   trace (snd (actionMessage env_ok ''mute'' state0)) =
     [ConsoleLog ''Received action message: mute'',
      ConsoleLog (''Invalid action message format. Expected: '' @ [CHR 0x22]
                  @ ''{device-id} {action}'' @ [CHR 0x22])]"
proof -
  have parts: "split_space (toLowerCase ''ID1Main Volume Up'') = [''id1main'', ''volume'', ''up'']"
    "split_space (toLowerCase ''mute'') = [''mute'']"
    by code_simp+
  have known: "find_speaker ''id1main'' \<noteq> None"
    by (simp add: find_speaker_def YAMAHA_CONFIG_speakers_def)
  note d1 = actionMessage_dispatch [where message = "''ID1Main Volume Up''" and env = env_ok
      and s = state_cooling]
  note d2 = actionMessage_dispatch [where message = "''mute''" and env = env_ok and s = state0]
  have table: "dispatch_table ''volume up'' = Some handleDeviceVolumeUp"
    using d1 by blast
  from d1 [THEN conjunct2, THEN conjunct1] d2 [THEN conjunct1] known table
  show ?thesis by (simp add: parts state0_def)
qed

text \<open>
  C2 as the claim states it, for every message of at least two parts, fails when the
  first part is no configured speaker: \<open>garage mute\<close> has two parts and the action
  \<open>mute\<close>, but the handler logs \<open>Unknown device\<close> and calls none of the six
  handlers (each of them, called with \<open>garage\<close>, would leave other events).
\<close>

theorem unknown_device_not_dispatched:
  "length (split_space (toLowerCase ''garage mute'')) \<ge> 2 \<and>
   join '' '' (drop 1 (split_space (toLowerCase ''garage mute''))) = ''mute'' \<and>
   trace (snd (actionMessage env_ok ''garage mute'' state0)) =
     [ConsoleLog ''Received action message: garage mute'', ConsoleLog ''Unknown device: garage''] \<and>
   actionMessage env_ok ''garage mute'' state0 \<noteq>
     seq (console_log ''Received action message: garage mute'')
       (handleDeviceMuteToggle env_ok ''garage'') state0 \<and>
   actionMessage env_ok ''garage mute'' state0 \<noteq>
     seq (console_log ''Received action message: garage mute'')
       (handleDeviceVolumeUp env_ok ''garage'') state0 \<and>
   actionMessage env_ok ''garage mute'' state0 \<noteq>
     seq (console_log ''Received action message: garage mute'')
       (handleDeviceVolumeDown env_ok ''garage'') state0 \<and>
   actionMessage env_ok ''garage mute'' state0 \<noteq>
     seq (console_log ''Received action message: garage mute'')
       (handleDevicePowerToggle env_ok ''garage'') state0 \<and>
   actionMessage env_ok ''garage mute'' state0 \<noteq>
     seq (console_log ''Received action message: garage mute'')
       (handleDevicePowerOn env_ok ''garage'') state0 \<and>
   actionMessage env_ok ''garage mute'' state0 \<noteq>
     seq (console_log ''Received action message: garage mute'')
       (handleDevicePowerOff env_ok ''garage'') state0"
proof -
  have parts: "split_space (toLowerCase ''garage mute'') = [''garage'', ''mute'']"
    by code_simp
  have run: "actionMessage env_ok ''garage mute'' state0 =
    (Inr (), state0\<lparr>trace := [ConsoleLog ''Received action message: garage mute'',
                                ConsoleLog ''Unknown device: garage'']\<rparr>)"
    by (simp add: actionMessage_def parts eval_defs state0_def)
  show ?thesis
    unfolding run
    by (simp add: parts handleDeviceMuteToggle_def handleDeviceVolumeUp_def
        handleDeviceVolumeDown_def handleDevicePowerToggle_def handleDevicePowerOn_def
        handleDevicePowerOff_def eval_defs state0_def env_ok_def)
qed

end
